theory Spec2Isabelle
  imports Complex_Main "HOL-Library.AList" "HOL-Library.Sublist"
begin

section \<open>JavaScript values\<close>

text \<open>
  The settings of the editor are plain JavaScript objects, typed \<open>any\<close> or
  \<open>Record<string, any>\<close> where presets carry them, and they are read back from JSON.
  They are modelled dynamically: a value is \<open>undefined\<close> or a JSON value, an object is
  the list of its own properties in insertion order. (JavaScript enumerates the
  integer-like keys of an object before its other keys; the list does not reorder them.
  Which keys an object has and what they hold does not depend on that order.)
\<close>

datatype jsval =
    JUndefined
  | JNull
  | JBool bool
  | JNum real
  | JStr string
  | JArr "jsval list"
  | JObj "(string \<times> jsval) list"

datatype js_error = TypeError | SyntaxError | InvalidPresetFormat | StorageError

text \<open>Truthiness, as \<open>if (v)\<close>, \<open>!v\<close> and \<open>v || d\<close> test it.\<close>

fun truthy :: "jsval \<Rightarrow> bool" where
  "truthy JUndefined = False"
| "truthy JNull = False"
| "truthy (JBool b) = b"
| "truthy (JNum n) = (n \<noteq> 0)"
| "truthy (JStr s) = (s \<noteq> [])"
| "truthy (JArr vs) = True"
| "truthy (JObj kvs) = True"

definition lookup :: "(string \<times> jsval) list \<Rightarrow> string \<Rightarrow> jsval" where
  "lookup kvs k = (case map_of kvs k of None \<Rightarrow> JUndefined | Some v \<Rightarrow> v)"

text \<open>
  Property access \<open>v.k\<close> for the property names the source reads (\<open>category\<close>,
  \<open>preset\<close>, \<open>name\<close>, \<open>settings\<close>, \<open>textSettings\<close>, \<open>canvasSettings\<close>, \<open>filters\<close>,
  \<open>objects\<close>, \<open>width\<close>, ...): it throws on \<open>undefined\<close> and \<open>null\<close>, finds nothing on a
  primitive or an array, and looks the name up in an object.
\<close>

fun get_prop :: "jsval \<Rightarrow> string \<Rightarrow> js_error + jsval" where
  "get_prop JUndefined k = Inl TypeError"
| "get_prop JNull k = Inl TypeError"
| "get_prop (JObj kvs) k = Inr (lookup kvs k)"
| "get_prop v k = Inr JUndefined"

fun digit_char :: "nat \<Rightarrow> char" where
  "digit_char n = char_of (48 + n)"

fun decimal :: "nat \<Rightarrow> string" where
  "decimal n = (if n < 10 then [digit_char n] else decimal (n div 10) @ [digit_char (n mod 10)])"

declare decimal.simps [simp del]

text \<open>
  The own enumerable properties that an object spread \<open>{...v}\<close> copies: those of an
  object, the indexed elements of an array, the indexed characters of a string, none
  of any other value.
\<close>

fun own_props :: "jsval \<Rightarrow> (string \<times> jsval) list" where
  "own_props (JObj kvs) = kvs"
| "own_props (JArr vs) = zip (map decimal [0 ..< length vs]) vs"
| "own_props (JStr s) = zip (map decimal [0 ..< length s]) (map (\<lambda>c. JStr [c]) s)"
| "own_props v = []"

definition set_props :: "(string \<times> jsval) list \<Rightarrow> (string \<times> jsval) list \<Rightarrow> (string \<times> jsval) list" where
  "set_props ps obj = fold (\<lambda>(k, v). AList.update k v) ps obj"

text \<open>\<open>{ ...a, ...b }\<close>: a fresh object receives the properties of \<open>a\<close>, then those of \<open>b\<close>.\<close>

definition spread :: "jsval \<Rightarrow> jsval \<Rightarrow> (string \<times> jsval) list" where
  "spread a b = set_props (own_props b) (set_props (own_props a) [])"

section \<open>Arrays\<close>

text \<open>\<open>Array.prototype.slice\<close> on integer arguments, and indexing \<open>xs[i]\<close>
  (\<open>None\<close> is \<open>undefined\<close>).\<close>

definition clamp_index :: "nat \<Rightarrow> int \<Rightarrow> nat" where
  "clamp_index len i = (if i < 0 then nat (max (int len + i) 0) else min (nat i) len)"

definition slice :: "'a list \<Rightarrow> int \<Rightarrow> int \<Rightarrow> 'a list" where
  "slice xs start fin =
     (let k = clamp_index (length xs) start; final = clamp_index (length xs) fin
      in take (final - k) (drop k xs))"

definition slice_from :: "'a list \<Rightarrow> int \<Rightarrow> 'a list" where
  "slice_from xs start = drop (clamp_index (length xs) start) xs"

definition index :: "'a list \<Rightarrow> int \<Rightarrow> 'a option" where
  "index xs i = (if 0 \<le> i \<and> i < int (length xs) then Some (xs ! nat i) else None)"

section \<open>The editor store (src/store/editorStore.ts)\<close>

record HistoryState =
  id_h :: string
  action :: string
  timestamp :: nat
  canvasState :: string

record PresetState =
  id_p :: string
  name_p :: string
  settings :: jsval
  thumbnail :: "string option"
  createdAt :: nat

datatype ExportFormat = PNG | JPG | SVG

text \<open>
  The collaborators of the store that are not code of the repository: the fabric canvas
  (type \<open>'c\<close>) and its objects (type \<open>'o\<close>), and JSON. Each call the source makes is a
  function here; \<open>canvas_toJSON\<close> is \<open>JSON.stringify(canvas.toJSON())\<close>, \<open>renderAll\<close>
  draws and changes no state. \<open>image_fit\<close> is the scaling and centring that
  \<open>importImage\<close> applies to a loaded image (floating point), \<open>object_offset\<close> the
  \<open>set({left: (left || 0) + 10, top: (top || 0) + 10})\<close> of a clone. \<open>as_presets\<close> reads
  a parsed array as \<open>PresetState[]\<close>, the cast that \<open>loadFromLocalStorage\<close> makes.
  The callbacks of \<open>loadFromJSON\<close>, \<open>clone\<close> and \<open>Image.fromURL\<close> are run on the spot.
\<close>

record ('c, 'o) Env =
  canvas_toJSON :: "'c \<Rightarrow> string"
  canvas_loadFromJSON :: "string \<Rightarrow> 'c \<Rightarrow> 'c"
  canvas_loadFromObject :: "jsval \<Rightarrow> 'c \<Rightarrow> 'c"
  canvas_setWidth :: "jsval \<Rightarrow> 'c \<Rightarrow> 'c"
  canvas_setHeight :: "jsval \<Rightarrow> 'c \<Rightarrow> 'c"
  canvas_setBackgroundColor :: "jsval \<Rightarrow> 'c \<Rightarrow> 'c"
  canvas_remove :: "'o \<Rightarrow> 'c \<Rightarrow> 'c"
  canvas_add :: "'o \<Rightarrow> 'c \<Rightarrow> 'c"
  canvas_setActiveObject :: "'o \<Rightarrow> 'c \<Rightarrow> 'c"
  canvas_bringToFront :: "'o \<Rightarrow> 'c \<Rightarrow> 'c"
  canvas_sendToBack :: "'o \<Rightarrow> 'c \<Rightarrow> 'c"
  canvas_centerObject :: "'o \<Rightarrow> 'c \<Rightarrow> 'c"
  canvas_toDataURL :: "ExportFormat \<Rightarrow> 'c \<Rightarrow> string"
  canvas_toSVG :: "'c \<Rightarrow> string"
  object_clone :: "'o \<Rightarrow> 'o"
  object_offset :: "'o \<Rightarrow> 'o"
  image_fit :: "jsval \<Rightarrow> 'o \<Rightarrow> 'o"
  JSON_parse :: "string \<Rightarrow> jsval option"
  as_presets :: "jsval \<Rightarrow> PresetState list"

record ('c, 'o) EditorState =
  canvas :: "'c option"
  activeObject :: "'o option"
  selectedTool :: string
  isLoading :: bool
  history :: "HistoryState list"
  historyIndex :: int
  presets :: "PresetState list"
  currentImage :: "string option"
  canvasSettings :: jsval
  textSettings :: jsval
  isDirty :: bool

definition defaultCanvasSettings :: jsval where
  "defaultCanvasSettings =
     JObj [(''width'', JNum 800), (''height'', JNum 600),
           (''backgroundColor'', JStr ''#ffffff''), (''fitMode'', JStr ''fit'')]"

definition defaultTextSettings :: jsval where
  "defaultTextSettings =
     JObj [(''fontFamily'', JStr ''Arial''), (''fontSize'', JNum 32),
           (''fontWeight'', JStr ''normal''), (''fill'', JStr ''#000000''),
           (''textAlign'', JStr ''left''), (''stroke'', JStr ''''),
           (''strokeWidth'', JNum 0), (''shadow'', JNull), (''backgroundColor'', JStr '''')]"

definition initialState :: "('c, 'o) EditorState" where
  "initialState =
     \<lparr> canvas = None, activeObject = None, selectedTool = ''select'', isLoading = False,
       history = [], historyIndex = - 1, presets = [], currentImage = None,
       canvasSettings = defaultCanvasSettings, textSettings = defaultTextSettings,
       isDirty = False \<rparr>"

subsection \<open>Canvas actions\<close>

definition setCanvas :: "'c \<Rightarrow> ('c, 'o) EditorState \<Rightarrow> ('c, 'o) EditorState" where
  "setCanvas c st = st\<lparr>canvas := Some c\<rparr>"

definition setActiveObject :: "'o option \<Rightarrow> ('c, 'o) EditorState \<Rightarrow> ('c, 'o) EditorState" where
  "setActiveObject obj st = st\<lparr>activeObject := obj\<rparr>"

definition setSelectedTool :: "string \<Rightarrow> ('c, 'o) EditorState \<Rightarrow> ('c, 'o) EditorState" where
  "setSelectedTool tool st = st\<lparr>selectedTool := tool\<rparr>"

definition setLoading :: "bool \<Rightarrow> ('c, 'o) EditorState \<Rightarrow> ('c, 'o) EditorState" where
  "setLoading loading st = st\<lparr>isLoading := loading\<rparr>"

definition setCurrentImage :: "string option \<Rightarrow> ('c, 'o) EditorState \<Rightarrow> ('c, 'o) EditorState" where
  "setCurrentImage imageUrl st = st\<lparr>currentImage := imageUrl\<rparr>"

definition setIsDirty :: "bool \<Rightarrow> ('c, 'o) EditorState \<Rightarrow> ('c, 'o) EditorState" where
  "setIsDirty dirty st = st\<lparr>isDirty := dirty\<rparr>"

subsection \<open>History actions\<close>

text \<open>\<open>newId\<close> is the value of \<open>generateId()\<close> and \<open>now\<close> that of \<open>Date.now()\<close>.\<close>

definition saveToHistory ::
  "('c, 'o) Env \<Rightarrow> string \<Rightarrow> string \<Rightarrow> nat \<Rightarrow> ('c, 'o) EditorState \<Rightarrow> ('c, 'o) EditorState" where
  "saveToHistory env act newId now st =
     (case canvas st of
        None \<Rightarrow> st
      | Some c \<Rightarrow>
          let newHistoryItem =
                \<lparr> id_h = newId, action = act, timestamp = now,
                  canvasState = canvas_toJSON env c \<rparr>;
              newHistory = slice (history st) 0 (historyIndex st + 1) @ [newHistoryItem];
              limitedHistory = slice_from newHistory (- 50)
          in st\<lparr> history := limitedHistory,
                 historyIndex := int (length limitedHistory) - 1,
                 isDirty := True \<rparr>)"

subsection \<open>The listeners of the canvas (features/canvas/CanvasRenderer.tsx)\<close>

text \<open>
  The canvas that the renderer binds to the store carries listeners that call back into
  the store: the selection events set \<open>activeObject\<close> to \<open>e.selected?.[0] || null\<close>, and
  \<open>object:modified\<close>, \<open>object:added\<close> and \<open>object:removed\<close> call \<open>saveToHistory\<close>. A
  canvas call of the store that removes or adds objects (\<open>loadFromJSON\<close>, \<open>remove\<close>,
  \<open>add\<close>, \<open>setActiveObject\<close>) fires these events before it returns. What it fires is
  the canvas' business; the store action receives it as \<open>fired\<close>: for each event, in
  order, the canvas as it is when the listener runs, the event, and the id and the clock
  value that the listener's \<open>saveToHistory\<close> reads. A canvas without listeners fires
  nothing.
\<close>

datatype 'o SurfaceEvent =
    SelectionCreated "'o option"
  | SelectionUpdated "'o option"
  | SelectionCleared
  | ObjectModified
  | ObjectAdded
  | ObjectRemoved

fun listener ::
  "('c, 'o) Env \<Rightarrow> 'o SurfaceEvent \<Rightarrow> string \<Rightarrow> nat \<Rightarrow> ('c, 'o) EditorState
     \<Rightarrow> ('c, 'o) EditorState" where
  "listener env (SelectionCreated sel) newId now st = setActiveObject sel st"
| "listener env (SelectionUpdated sel) newId now st = setActiveObject sel st"
| "listener env SelectionCleared newId now st = setActiveObject None st"
| "listener env ObjectModified newId now st = saveToHistory env ''Object modified'' newId now st"
| "listener env ObjectAdded newId now st = saveToHistory env ''Object added'' newId now st"
| "listener env ObjectRemoved newId now st = saveToHistory env ''Object removed'' newId now st"

definition fire ::
  "('c, 'o) Env \<Rightarrow> ('c \<times> 'o SurfaceEvent \<times> string \<times> nat) list \<Rightarrow> ('c, 'o) EditorState
     \<Rightarrow> ('c, 'o) EditorState" where
  "fire env fired st =
     foldl (\<lambda>s (c, ev, newId, now). listener env ev newId now (s\<lparr>canvas := Some c\<rparr>)) st fired"

subsection \<open>Undo and redo\<close>

text \<open>
  \<open>history[historyIndex - 1].canvasState\<close> throws a TypeError when the index is outside
  the array; the store is then as it was. The snapshot and the cursor are read before
  the load; the listeners run during the load; the callback then writes the cursor
  computed from the value read at the start.
\<close>

definition undo ::
  "('c, 'o) Env \<Rightarrow> ('c \<times> 'o SurfaceEvent \<times> string \<times> nat) list \<Rightarrow> ('c, 'o) EditorState
     \<Rightarrow> js_error + ('c, 'o) EditorState" where
  "undo env fired st =
     (case canvas st of
        None \<Rightarrow> Inr st
      | Some c \<Rightarrow>
          if historyIndex st \<le> 0 then Inr st
          else (case index (history st) (historyIndex st - 1) of
                  None \<Rightarrow> Inl TypeError
                | Some previousState \<Rightarrow>
                    Inr ((fire env fired st)
                           \<lparr> canvas := Some (canvas_loadFromJSON env (canvasState previousState) c),
                             historyIndex := historyIndex st - 1,
                             activeObject := None,
                             isDirty := True \<rparr>)))"

definition redo ::
  "('c, 'o) Env \<Rightarrow> ('c \<times> 'o SurfaceEvent \<times> string \<times> nat) list \<Rightarrow> ('c, 'o) EditorState
     \<Rightarrow> js_error + ('c, 'o) EditorState" where
  "redo env fired st =
     (case canvas st of
        None \<Rightarrow> Inr st
      | Some c \<Rightarrow>
          if historyIndex st \<ge> int (length (history st)) - 1 then Inr st
          else (case index (history st) (historyIndex st + 1) of
                  None \<Rightarrow> Inl TypeError
                | Some nextState \<Rightarrow>
                    Inr ((fire env fired st)
                           \<lparr> canvas := Some (canvas_loadFromJSON env (canvasState nextState) c),
                             historyIndex := historyIndex st + 1,
                             activeObject := None,
                             isDirty := True \<rparr>)))"

definition canUndo :: "('c, 'o) EditorState \<Rightarrow> bool" where
  "canUndo st = (historyIndex st > 0)"

definition canRedo :: "('c, 'o) EditorState \<Rightarrow> bool" where
  "canRedo st = (historyIndex st < int (length (history st)) - 1)"

subsection \<open>Settings and preset actions\<close>

definition updateCanvasSettings ::
  "('c, 'o) Env \<Rightarrow> jsval \<Rightarrow> ('c, 'o) EditorState \<Rightarrow> ('c, 'o) EditorState" where
  "updateCanvasSettings env s st =
     (let newSettings = spread (canvasSettings st) s;
          canvas' = (case canvas st of
                       None \<Rightarrow> None
                     | Some c \<Rightarrow>
                         Some (canvas_setBackgroundColor env (lookup newSettings ''backgroundColor'')
                                (canvas_setHeight env (lookup newSettings ''height'')
                                  (canvas_setWidth env (lookup newSettings ''width'') c))))
      in st\<lparr>canvas := canvas', canvasSettings := JObj newSettings, isDirty := True\<rparr>)"

definition updateTextSettings :: "jsval \<Rightarrow> ('c, 'o) EditorState \<Rightarrow> ('c, 'o) EditorState" where
  "updateTextSettings s st =
     st\<lparr>textSettings := JObj (spread (textSettings st) s), isDirty := True\<rparr>"

definition savePreset ::
  "string \<Rightarrow> jsval \<Rightarrow> string \<Rightarrow> nat \<Rightarrow> ('c, 'o) EditorState \<Rightarrow> ('c, 'o) EditorState" where
  "savePreset name s newId now st =
     (let newPreset = \<lparr> id_p = newId, name_p = name, settings = s, thumbnail = None,
                        createdAt = now \<rparr>
      in st\<lparr>presets := presets st @ [newPreset]\<rparr>)"

definition loadPreset :: "string \<Rightarrow> ('c, 'o) EditorState \<Rightarrow> js_error + ('c, 'o) EditorState" where
  "loadPreset presetId st =
     (case find (\<lambda>p. id_p p = presetId) (presets st) of
        None \<Rightarrow> Inr st
      | Some preset \<Rightarrow>
          if canvas st = None then Inr st
          else (case get_prop (settings preset) ''textSettings'' of
                  Inl e \<Rightarrow> Inl e
                | Inr ts \<Rightarrow> Inr (if truthy ts then updateTextSettings ts st else st)))"

definition deletePreset :: "string \<Rightarrow> ('c, 'o) EditorState \<Rightarrow> ('c, 'o) EditorState" where
  "deletePreset presetId st = st\<lparr>presets := filter (\<lambda>p. id_p p \<noteq> presetId) (presets st)\<rparr>"

subsection \<open>Object manipulation\<close>

text \<open>
  \<open>fired\<close> is what \<open>canvas.remove\<close>, or \<open>canvas.add\<close> and \<open>canvas.setActiveObject\<close>, fire
  before the action records its own entry.
\<close>

definition deleteSelectedObject ::
  "('c, 'o) Env \<Rightarrow> ('c \<times> 'o SurfaceEvent \<times> string \<times> nat) list \<Rightarrow> string \<Rightarrow> nat
     \<Rightarrow> ('c, 'o) EditorState \<Rightarrow> ('c, 'o) EditorState" where
  "deleteSelectedObject env fired newId now st =
     (case (canvas st, activeObject st) of
        (Some c, Some obj) \<Rightarrow>
          (saveToHistory env ''Delete object'' newId now
             ((fire env fired st)\<lparr>canvas := Some (canvas_remove env obj c)\<rparr>))
          \<lparr>activeObject := None\<rparr>
      | _ \<Rightarrow> st)"

definition duplicateSelectedObject ::
  "('c, 'o) Env \<Rightarrow> ('c \<times> 'o SurfaceEvent \<times> string \<times> nat) list \<Rightarrow> string \<Rightarrow> nat
     \<Rightarrow> ('c, 'o) EditorState \<Rightarrow> ('c, 'o) EditorState" where
  "duplicateSelectedObject env fired newId now st =
     (case (canvas st, activeObject st) of
        (Some c, Some obj) \<Rightarrow>
          (let cloned = object_offset env (object_clone env obj)
           in (saveToHistory env ''Duplicate object'' newId now
                 ((fire env fired st)
                    \<lparr>canvas := Some (canvas_setActiveObject env cloned (canvas_add env cloned c))\<rparr>))
              \<lparr>activeObject := Some cloned\<rparr>)
      | _ \<Rightarrow> st)"

definition bringToFront ::
  "('c, 'o) Env \<Rightarrow> string \<Rightarrow> nat \<Rightarrow> ('c, 'o) EditorState \<Rightarrow> ('c, 'o) EditorState" where
  "bringToFront env newId now st =
     (case (canvas st, activeObject st) of
        (Some c, Some obj) \<Rightarrow>
          saveToHistory env ''Bring to front'' newId now
            (st\<lparr>canvas := Some (canvas_bringToFront env obj c)\<rparr>)
      | _ \<Rightarrow> st)"

definition sendToBack ::
  "('c, 'o) Env \<Rightarrow> string \<Rightarrow> nat \<Rightarrow> ('c, 'o) EditorState \<Rightarrow> ('c, 'o) EditorState" where
  "sendToBack env newId now st =
     (case (canvas st, activeObject st) of
        (Some c, Some obj) \<Rightarrow>
          saveToHistory env ''Send to back'' newId now
            (st\<lparr>canvas := Some (canvas_sendToBack env obj c)\<rparr>)
      | _ \<Rightarrow> st)"

subsection \<open>Export and import\<close>

definition exportCanvas :: "('c, 'o) Env \<Rightarrow> ExportFormat \<Rightarrow> ('c, 'o) EditorState \<Rightarrow> string option" where
  "exportCanvas env format st =
     (case canvas st of
        None \<Rightarrow> None
      | Some c \<Rightarrow>
          (case format of
             PNG \<Rightarrow> Some (canvas_toDataURL env PNG c)
           | JPG \<Rightarrow> Some (canvas_toDataURL env JPG c)
           | SVG \<Rightarrow> Some (canvas_toSVG env c)))"

text \<open>
  \<open>img\<close> is the image that \<open>fabric.Image.fromURL\<close> hands to the callback, \<open>fired\<close> what
  \<open>canvas.add\<close> fires.
\<close>

definition importImage ::
  "('c, 'o) Env \<Rightarrow> string \<Rightarrow> 'o \<Rightarrow> ('c \<times> 'o SurfaceEvent \<times> string \<times> nat) list \<Rightarrow> string \<Rightarrow> nat
     \<Rightarrow> ('c, 'o) EditorState \<Rightarrow> ('c, 'o) EditorState" where
  "importImage env imageUrl img fired newId now st =
     (case canvas st of
        None \<Rightarrow> st
      | Some c \<Rightarrow>
          (let img' = image_fit env (canvasSettings st) img
           in (saveToHistory env ''Import image'' newId now
                 ((fire env fired st)
                    \<lparr>canvas := Some (canvas_centerObject env img' (canvas_add env img' c))\<rparr>))
              \<lparr>currentImage := Some imageUrl\<rparr>))"

subsection \<open>Local storage\<close>

text \<open>
  The storage is outside the store: \<open>written\<close> says whether the write
  (\<open>JSON.stringify\<close> and \<open>localStorage.setItem\<close>, which throws when the quota is
  exceeded) returned, \<open>saved\<close> is what \<open>localStorage.getItem\<close> returns.
\<close>

definition saveToLocalStorage :: "bool \<Rightarrow> ('c, 'o) EditorState \<Rightarrow> js_error + ('c, 'o) EditorState" where
  "saveToLocalStorage written st =
     (if written then Inr (st\<lparr>isDirty := False\<rparr>) else Inl StorageError)"

definition orElse :: "jsval \<Rightarrow> jsval \<Rightarrow> jsval" where
  "orElse v d = (if truthy v then v else d)"

text \<open>
  The four reads \<open>data.presets\<close>, \<open>data.canvasSettings\<close>, \<open>data.textSettings\<close> and
  \<open>data.canvasData\<close> throw together (when \<open>data\<close> is \<open>null\<close>), before the store is
  written; the \<open>catch\<close> then leaves the store as it was. \<open>fired\<close> is what
  \<open>canvas.loadFromJSON\<close> fires.
\<close>

definition prop_of :: "jsval \<Rightarrow> string \<Rightarrow> jsval" where
  "prop_of v k = (case get_prop v k of Inl e \<Rightarrow> JUndefined | Inr x \<Rightarrow> x)"

definition loadFromLocalStorage ::
  "('c, 'o) Env \<Rightarrow> string option \<Rightarrow> ('c \<times> 'o SurfaceEvent \<times> string \<times> nat) list
     \<Rightarrow> ('c, 'o) EditorState \<Rightarrow> ('c, 'o) EditorState" where
  "loadFromLocalStorage env saved fired st =
     (case saved of
        None \<Rightarrow> st
      | Some raw \<Rightarrow>
          if raw = [] then st
          else (case JSON_parse env raw of
                  None \<Rightarrow> st
                | Some data \<Rightarrow>
                    (case get_prop data ''presets'' of
                       Inl e \<Rightarrow> st
                     | Inr ps \<Rightarrow>
                         let st' = st\<lparr> presets := (if truthy ps then as_presets env ps else []),
                                        canvasSettings :=
                                          orElse (prop_of data ''canvasSettings'') defaultCanvasSettings,
                                        textSettings :=
                                          orElse (prop_of data ''textSettings'') defaultTextSettings \<rparr>;
                             canvasData = prop_of data ''canvasData''
                         in (case canvas st of
                               None \<Rightarrow> st'
                             | Some c \<Rightarrow>
                                 if truthy canvasData
                                 then (fire env fired st')
                                        \<lparr>canvas := Some (canvas_loadFromObject env canvasData c)\<rparr>
                                 else st'))))"

definition clearLocalStorage :: "('c, 'o) EditorState \<Rightarrow> ('c, 'o) EditorState" where
  "clearLocalStorage st = st\<lparr>isDirty := False\<rparr>"

subsection \<open>The store as a transition system\<close>

text \<open>
  One constructor for each action of the store, carrying its arguments and what the
  action reads from outside (generated ids, the clock, the loaded image, the storage,
  the events that its canvas calls fire).
  \<open>SurfaceEdit\<close> is a change that the rendering surface or a tool makes to the canvas
  object itself; the store holds a reference to it and sees the change.
\<close>

datatype ('c, 'o) Action =
    SetCanvas 'c
  | SetActiveObject "'o option"
  | SetSelectedTool string
  | SetLoading bool
  | SetCurrentImage "string option"
  | SetIsDirty bool
  | SaveToHistory string string nat
  | Undo "('c \<times> 'o SurfaceEvent \<times> string \<times> nat) list"
  | Redo "('c \<times> 'o SurfaceEvent \<times> string \<times> nat) list"
  | SavePreset string jsval string nat
  | LoadPreset string
  | DeletePreset string
  | UpdateCanvasSettings jsval
  | UpdateTextSettings jsval
  | DeleteSelectedObject "('c \<times> 'o SurfaceEvent \<times> string \<times> nat) list" string nat
  | DuplicateSelectedObject "('c \<times> 'o SurfaceEvent \<times> string \<times> nat) list" string nat
  | BringToFront string nat
  | SendToBack string nat
  | ExportCanvas ExportFormat
  | ImportImage string 'o "('c \<times> 'o SurfaceEvent \<times> string \<times> nat) list" string nat
  | SaveToLocalStorage bool
  | LoadFromLocalStorage "string option" "('c \<times> 'o SurfaceEvent \<times> string \<times> nat) list"
  | ClearLocalStorage
  | SurfaceEdit 'c

fun perform ::
  "('c, 'o) Env \<Rightarrow> ('c, 'o) EditorState \<Rightarrow> ('c, 'o) Action \<Rightarrow> js_error + ('c, 'o) EditorState" where
  "perform env st (SetCanvas c) = Inr (setCanvas c st)"
| "perform env st (SetActiveObject obj) = Inr (setActiveObject obj st)"
| "perform env st (SetSelectedTool tool) = Inr (setSelectedTool tool st)"
| "perform env st (SetLoading loading) = Inr (setLoading loading st)"
| "perform env st (SetCurrentImage imageUrl) = Inr (setCurrentImage imageUrl st)"
| "perform env st (SetIsDirty dirty) = Inr (setIsDirty dirty st)"
| "perform env st (SaveToHistory act newId now) = Inr (saveToHistory env act newId now st)"
| "perform env st (Undo fired) = undo env fired st"
| "perform env st (Redo fired) = redo env fired st"
| "perform env st (SavePreset name s newId now) = Inr (savePreset name s newId now st)"
| "perform env st (LoadPreset presetId) = loadPreset presetId st"
| "perform env st (DeletePreset presetId) = Inr (deletePreset presetId st)"
| "perform env st (UpdateCanvasSettings s) = Inr (updateCanvasSettings env s st)"
| "perform env st (UpdateTextSettings s) = Inr (updateTextSettings s st)"
| "perform env st (DeleteSelectedObject fired newId now) =
     Inr (deleteSelectedObject env fired newId now st)"
| "perform env st (DuplicateSelectedObject fired newId now) =
     Inr (duplicateSelectedObject env fired newId now st)"
| "perform env st (BringToFront newId now) = Inr (bringToFront env newId now st)"
| "perform env st (SendToBack newId now) = Inr (sendToBack env newId now st)"
| "perform env st (ExportCanvas format) = Inr st"
| "perform env st (ImportImage imageUrl img fired newId now) =
     Inr (importImage env imageUrl img fired newId now st)"
| "perform env st (SaveToLocalStorage written) = saveToLocalStorage written st"
| "perform env st (LoadFromLocalStorage saved fired) =
     Inr (loadFromLocalStorage env saved fired st)"
| "perform env st ClearLocalStorage = Inr (clearLocalStorage st)"
| "perform env st (SurfaceEdit c') =
     Inr (case canvas st of None \<Rightarrow> st | Some c \<Rightarrow> st\<lparr>canvas := Some c'\<rparr>)"

text \<open>An action that throws leaves the store as it was, and the session goes on.\<close>

definition exec :: "('c, 'o) Env \<Rightarrow> ('c, 'o) EditorState \<Rightarrow> ('c, 'o) Action \<Rightarrow> ('c, 'o) EditorState" where
  "exec env st a = (case perform env st a of Inl e \<Rightarrow> st | Inr st' \<Rightarrow> st')"

definition run_from ::
  "('c, 'o) Env \<Rightarrow> ('c, 'o) EditorState \<Rightarrow> ('c, 'o) Action list \<Rightarrow> ('c, 'o) EditorState" where
  "run_from env st acts = foldl (exec env) st acts"

definition run :: "('c, 'o) Env \<Rightarrow> ('c, 'o) Action list \<Rightarrow> ('c, 'o) EditorState" where
  "run env acts = run_from env initialState acts"

section \<open>The tool registry (features/tools/ToolRegistry)\<close>

datatype ToolCategory = Selection | Drawing | Text | Shapes | Adjustments | AI | Branding

text \<open>
  A hook is a function on the canvas it is handed. \<open>deactivate\<close> is optional because
  \<open>activateTool\<close> tests it before the call; the pointer hooks and the React component
  of a tool are never touched by the registry and are left out.
\<close>

record 'c ToolHandler =
  activate :: "'c \<Rightarrow> 'c"
  deactivate :: "('c \<Rightarrow> 'c) option"

record 'c ToolDefinition =
  id_t :: string
  name_t :: string
  icon :: string
  category :: ToolCategory
  description_t :: string
  shortcut :: "string option"
  handler :: "'c ToolHandler option"

text \<open>
  The registry holds a reference to the canvas it bound, so canvases live in a store
  \<open>canvases\<close> from references to canvas values. \<open>calls\<close> is the log of the hooks
  invoked so far, oldest first: which hook, of which tool, on which canvas.
\<close>

datatype hook_call = Deactivate string nat | Activate string nat

record 'c ToolRegistry =
  tools :: "(string \<times> 'c ToolDefinition) list"
  activeTool :: "string option"
  activeCanvas :: "nat option"
  canvases :: "nat \<Rightarrow> 'c"
  calls :: "hook_call list"

definition register :: "'c ToolDefinition \<Rightarrow> 'c ToolRegistry \<Rightarrow> 'c ToolRegistry" where
  "register tool r = r\<lparr>tools := AList.update (id_t tool) tool (tools r)\<rparr>"

definition unregister :: "string \<Rightarrow> 'c ToolRegistry \<Rightarrow> 'c ToolRegistry" where
  "unregister toolId r = r\<lparr>tools := AList.delete toolId (tools r)\<rparr>"

definition getTool :: "string \<Rightarrow> 'c ToolRegistry \<Rightarrow> 'c ToolDefinition option" where
  "getTool toolId r = map_of (tools r) toolId"

definition getAllTools :: "'c ToolRegistry \<Rightarrow> 'c ToolDefinition list" where
  "getAllTools r = map snd (tools r)"

definition getToolsByCategory :: "ToolCategory \<Rightarrow> 'c ToolRegistry \<Rightarrow> 'c ToolDefinition list" where
  "getToolsByCategory cat r = filter (\<lambda>tool. category tool = cat) (getAllTools r)"

text \<open>
  \<open>if (this.activeTool && this.activeCanvas)\<close> holds for a bound canvas and a tool id
  that is not the empty string; the \<open>deactivate\<close> hook is called when the active id is
  still registered, with a handler that has the hook. \<open>r1\<close> is the registry after this
  first half.
\<close>

definition activateTool :: "string \<Rightarrow> nat \<Rightarrow> 'c ToolRegistry \<Rightarrow> 'c ToolRegistry" where
  "activateTool toolId cv r =
     (let r1 =
            (case (activeTool r, activeCanvas r) of
               (Some cur, Some ac) \<Rightarrow>
                 if cur = [] then r
                 else (case map_of (tools r) cur of
                         None \<Rightarrow> r
                       | Some currentTool \<Rightarrow>
                           (case handler currentTool of
                              None \<Rightarrow> r
                            | Some h \<Rightarrow>
                                (case deactivate h of
                                   None \<Rightarrow> r
                                 | Some hook \<Rightarrow>
                                     r\<lparr> canvases := (canvases r)(ac := hook (canvases r ac)),
                                         calls := calls r @ [Deactivate cur ac] \<rparr>)))
             | _ \<Rightarrow> r)
      in case map_of (tools r1) toolId of
           None \<Rightarrow> r1
         | Some tool \<Rightarrow>
             (case handler tool of
                None \<Rightarrow> r1
              | Some h \<Rightarrow>
                  r1\<lparr> canvases := (canvases r1)(cv := activate h (canvases r1 cv)),
                       calls := calls r1 @ [Activate toolId cv],
                       activeTool := Some toolId,
                       activeCanvas := Some cv \<rparr>))"

definition getActiveTool :: "'c ToolRegistry \<Rightarrow> string option" where
  "getActiveTool r = activeTool r"

definition isToolActive :: "string \<Rightarrow> 'c ToolRegistry \<Rightarrow> bool" where
  "isToolActive toolId r = (activeTool r = Some toolId)"

subsection \<open>The built-in tools\<close>

text \<open>What the hooks of the built-in tools read and write of a fabric canvas.\<close>

record Surface =
  isDrawingMode :: bool
  selection :: bool
  defaultCursor :: string
  selectedObject :: "string option"

definition selectTool :: "Surface ToolDefinition" where
  "selectTool =
     \<lparr> id_t = ''select'', name_t = ''Select'', icon = ''MousePointer'', category = Selection,
       description_t = ''Select and move objects'', shortcut = Some ''V'',
       handler = Some
         \<lparr> activate = (\<lambda>c. c\<lparr>isDrawingMode := False, selection := True,
                                defaultCursor := ''default''\<rparr>),
           deactivate = Some (\<lambda>c. c\<lparr>selectedObject := None\<rparr>) \<rparr> \<rparr>"

definition textTool :: "Surface ToolDefinition" where
  "textTool =
     \<lparr> id_t = ''text'', name_t = ''Text'', icon = ''Type'', category = Text,
       description_t = ''Add text to your design'', shortcut = Some ''T'',
       handler = Some
         \<lparr> activate = (\<lambda>c. c\<lparr>isDrawingMode := False, selection := False,
                                defaultCursor := ''text''\<rparr>),
           deactivate = Some (\<lambda>c. c\<lparr>selection := True, defaultCursor := ''default''\<rparr>) \<rparr> \<rparr>"

definition rectangleTool :: "Surface ToolDefinition" where
  "rectangleTool =
     \<lparr> id_t = ''rectangle'', name_t = ''Rectangle'', icon = ''Square'', category = Shapes,
       description_t = ''Draw rectangles'', shortcut = Some ''R'',
       handler = Some
         \<lparr> activate = (\<lambda>c. c\<lparr>isDrawingMode := False, selection := False,
                                defaultCursor := ''crosshair''\<rparr>),
           deactivate = Some (\<lambda>c. c\<lparr>selection := True, defaultCursor := ''default''\<rparr>) \<rparr> \<rparr>"

definition circleTool :: "Surface ToolDefinition" where
  "circleTool =
     \<lparr> id_t = ''circle'', name_t = ''Circle'', icon = ''Circle'', category = Shapes,
       description_t = ''Draw circles'', shortcut = Some ''C'',
       handler = Some
         \<lparr> activate = (\<lambda>c. c\<lparr>isDrawingMode := False, selection := False,
                                defaultCursor := ''crosshair''\<rparr>),
           deactivate = Some (\<lambda>c. c\<lparr>selection := True, defaultCursor := ''default''\<rparr>) \<rparr> \<rparr>"

definition cropTool :: "Surface ToolDefinition" where
  "cropTool =
     \<lparr> id_t = ''crop'', name_t = ''Crop'', icon = ''Crop'', category = Adjustments,
       description_t = ''Crop your image'', shortcut = Some ''P'',
       handler = Some
         \<lparr> activate = (\<lambda>c. c\<lparr>isDrawingMode := False, selection := False\<rparr>),
           deactivate = Some (\<lambda>c. c\<lparr>selection := True\<rparr>) \<rparr> \<rparr>"

definition emptyRegistry :: "(nat \<Rightarrow> 'c) \<Rightarrow> 'c ToolRegistry" where
  "emptyRegistry cs =
     \<lparr> tools = [], activeTool = None, activeCanvas = None, canvases = cs, calls = [] \<rparr>"

definition builtinRegistry :: "(nat \<Rightarrow> Surface) \<Rightarrow> Surface ToolRegistry" where
  "builtinRegistry cs =
     register cropTool (register circleTool (register rectangleTool
       (register textTool (register selectTool (emptyRegistry cs)))))"

section \<open>The preset catalog (ToolPresetsClass)\<close>

record PresetCategory =
  id_c :: string
  name_c :: string
  description_c :: string
  presets_c :: "PresetState list"

text \<open>\<open>presetCategories\<close>, a \<open>Map\<close> from category ids to categories, in insertion order.\<close>

type_synonym catalog = "(string \<times> PresetCategory) list"

definition registerCategory :: "PresetCategory \<Rightarrow> catalog \<Rightarrow> catalog" where
  "registerCategory c cat = AList.update (id_c c) c cat"

definition getCategory :: "catalog \<Rightarrow> string \<Rightarrow> PresetCategory option" where
  "getCategory cat categoryId = map_of cat categoryId"

definition getAllCategories :: "catalog \<Rightarrow> PresetCategory list" where
  "getAllCategories cat = map snd cat"

definition getPreset :: "catalog \<Rightarrow> string \<Rightarrow> string \<Rightarrow> PresetState option" where
  "getPreset cat categoryId presetId =
     (case map_of cat categoryId of
        None \<Rightarrow> None
      | Some c \<Rightarrow> find (\<lambda>p. id_p p = presetId) (presets_c c))"

text \<open>
  \<open>addPreset\<close> receives the preset without \<open>id\<close> and \<open>createdAt\<close> (its name, settings
  and optional thumbnail) and pushes onto the list of the category, in place.
\<close>

definition addPreset ::
  "string \<Rightarrow> string \<Rightarrow> jsval \<Rightarrow> string option \<Rightarrow> string \<Rightarrow> nat \<Rightarrow> catalog \<Rightarrow> catalog" where
  "addPreset categoryId name s thumb newId now cat =
     (case map_of cat categoryId of
        None \<Rightarrow> cat
      | Some c \<Rightarrow>
          let newPreset = \<lparr> id_p = newId, name_p = name, settings = s, thumbnail = thumb,
                            createdAt = now \<rparr>
          in AList.update categoryId (c\<lparr>presets_c := presets_c c @ [newPreset]\<rparr>) cat)"

definition removePreset :: "string \<Rightarrow> string \<Rightarrow> catalog \<Rightarrow> catalog" where
  "removePreset categoryId presetId cat =
     (case map_of cat categoryId of
        None \<Rightarrow> cat
      | Some c \<Rightarrow>
          AList.update categoryId
            (c\<lparr>presets_c := filter (\<lambda>p. id_p p \<noteq> presetId) (presets_c c)\<rparr>) cat)"

fun is_array :: "jsval \<Rightarrow> bool" where
  "is_array (JArr vs) = True"
| "is_array v = False"

text \<open>
  \<open>applyPreset\<close> returns the preset, or \<open>undefined\<close> (\<open>None\<close>) when it is not found. It
  can throw after it has written the store (\<open>objects.forEach\<close> on a value that is not an
  array), so the store is returned beside the result. The branch for \<open>filters\<close> and the
  body of the loop over \<open>objects\<close> are empty in the source.
\<close>

definition applyPreset ::
  "('c, 'o) Env \<Rightarrow> catalog \<Rightarrow> string \<Rightarrow> string \<Rightarrow> ('c, 'o) EditorState
     \<Rightarrow> (js_error + PresetState option) \<times> ('c, 'o) EditorState" where
  "applyPreset env cat categoryId presetId store =
     (case getPreset cat categoryId presetId of
        None \<Rightarrow> (Inr None, store)
      | Some preset \<Rightarrow>
          (case get_prop (settings preset) ''textSettings'' of
             Inl e \<Rightarrow> (Inl e, store)
           | Inr ts \<Rightarrow>
               let st1 = (if truthy ts then updateTextSettings ts store else store);
                   cs = prop_of (settings preset) ''canvasSettings'';
                   st2 = (if truthy cs then updateCanvasSettings env cs st1 else st1);
                   objects = prop_of (settings preset) ''objects''
               in if truthy objects \<and> canvas store \<noteq> None \<and> \<not> is_array objects
                  then (Inl TypeError, st2)
                  else (Inr (Some preset), st2)))"

text \<open>
  The conversion to a string that \<open>+\<close> applies to a parsed JSON value; \<open>num\<close> prints a
  number. An object of parsed JSON has no callable property of its own: with an own
  \<open>toString\<close> key neither \<open>valueOf\<close> nor \<open>toString\<close> yields a primitive and the conversion
  throws a TypeError; without one it is \<open>[object Object]\<close>. An array is joined with commas,
  \<open>null\<close> and \<open>undefined\<close> elements as the empty string, and it throws when the
  conversion of an element does. (The stack that a deeply nested array needs is not
  modelled.)
\<close>

fun collect :: "(js_error + 'a) list \<Rightarrow> js_error + 'a list" where
  "collect [] = Inr []"
| "collect (Inl e # rs) = Inl e"
| "collect (Inr x # rs) = (case collect rs of Inl e \<Rightarrow> Inl e | Inr xs \<Rightarrow> Inr (x # xs))"

fun join_comma :: "string list \<Rightarrow> string" where
  "join_comma [] = []"
| "join_comma [s] = s"
| "join_comma (s # t # ss) = s @ '','' @ join_comma (t # ss)"

fun toString :: "(real \<Rightarrow> string) \<Rightarrow> jsval \<Rightarrow> js_error + string" where
  "toString num JUndefined = Inr ''undefined''"
| "toString num JNull = Inr ''null''"
| "toString num (JBool b) = Inr (if b then ''true'' else ''false'')"
| "toString num (JNum n) = Inr (num n)"
| "toString num (JStr s) = Inr s"
| "toString num (JArr vs) =
     (case collect (map (\<lambda>v. if v = JUndefined \<or> v = JNull then Inr [] else toString num v) vs) of
        Inl e \<Rightarrow> Inl e
      | Inr ss \<Rightarrow> Inr (join_comma ss))"
| "toString num (JObj kvs) =
     (if ''toString'' \<in> fst ` set kvs then Inl TypeError else Inr ''[object Object]'')"

text \<open>
  \<open>importPreset\<close>: \<open>parse\<close> is \<open>JSON.parse\<close> (\<open>None\<close> when it throws), and \<open>conv\<close> is the
  conversion to a string that \<open>parsed.preset.name + ' (Imported)'\<close> applies to the name
  (\<open>Inl\<close> when it throws; \<open>toString num\<close> above for the values of parsed JSON). Every
  exception inside the \<open>try\<close> block ends in \<open>return false\<close>, also the one that the
  conversion throws, before \<open>addPreset\<close> is called. The category read
  from the record can be any value; \<open>presetCategories.get\<close> finds nothing for a key that
  is not a string.
\<close>

definition importPreset ::
  "(string \<Rightarrow> jsval option) \<Rightarrow> (jsval \<Rightarrow> js_error + string) \<Rightarrow> string \<Rightarrow> nat \<Rightarrow> string
     \<Rightarrow> catalog \<Rightarrow> bool \<times> catalog" where
  "importPreset parse conv newId now data cat =
     (case parse data of
        None \<Rightarrow> (False, cat)
      | Some parsed \<Rightarrow>
          (case get_prop parsed ''category'' of
             Inl e \<Rightarrow> (False, cat)
           | Inr cid \<Rightarrow>
               if \<not> truthy cid then (False, cat)
               else (case get_prop parsed ''preset'' of
                       Inl e \<Rightarrow> (False, cat)
                     | Inr preset \<Rightarrow>
                         if \<not> truthy preset then (False, cat)
                         else (case conv (prop_of preset ''name'') of
                                 Inl e \<Rightarrow> (False, cat)
                               | Inr name \<Rightarrow>
                                   (True,
                                    (case cid of
                                       JStr categoryId \<Rightarrow>
                                         addPreset categoryId (name @ '' (Imported)'')
                                           (prop_of preset ''settings'') None newId now cat
                                     | _ \<Rightarrow> cat))))))"

section \<open>Notions used to state the properties\<close>

text \<open>The cursor is a valid index of the timeline, or \<open>-1\<close> on the empty timeline.\<close>

definition hist_ok :: "('c, 'o) EditorState \<Rightarrow> bool" where
  "hist_ok st =
     (if history st = [] then historyIndex st = - 1
      else 0 \<le> historyIndex st \<and> historyIndex st < int (length (history st)))"




text \<open>
  A recordable action: the surface changes the canvas and the store records it. The
  snapshot it leaves holds the canvas of that moment.
\<close>

definition snapshot :: "('c, 'o) Env \<Rightarrow> 'c \<times> string \<times> string \<times> nat \<Rightarrow> HistoryState" where
  "snapshot env r =
     (case r of (c, act, newId, now) \<Rightarrow>
        \<lparr>id_h = newId, action = act, timestamp = now, canvasState = canvas_toJSON env c\<rparr>)"

definition recordable :: "'c \<times> string \<times> string \<times> nat \<Rightarrow> ('c, 'o) Action list" where
  "recordable r =
     (case r of (c, act, newId, now) \<Rightarrow> [SurfaceEdit c, SaveToHistory act newId now])"

text \<open>A parsed record has a field when it is an object with that key.\<close>

definition has_field :: "jsval \<Rightarrow> string \<Rightarrow> bool" where
  "has_field v k = (case v of JObj kvs \<Rightarrow> k \<in> fst ` set kvs | _ \<Rightarrow> False)"

text \<open>
  The actions of the store by what they do to the dirty flag: those that clear it, those
  that update the settings, those that record a history entry whenever a canvas is bound,
  and those that record one for the selected object.
\<close>

fun clears_dirty :: "('c, 'o) Action \<Rightarrow> bool" where
  "clears_dirty (SaveToLocalStorage written) = written"
| "clears_dirty ClearLocalStorage = True"
| "clears_dirty (SetIsDirty dirty) = (\<not> dirty)"
| "clears_dirty a = False"

fun updates_settings :: "('c, 'o) Action \<Rightarrow> bool" where
  "updates_settings (UpdateCanvasSettings s) = True"
| "updates_settings (UpdateTextSettings s) = True"
| "updates_settings a = False"

fun records :: "('c, 'o) Action \<Rightarrow> bool" where
  "records (SaveToHistory act newId now) = True"
| "records (ImportImage imageUrl img fired newId now) = True"
| "records a = False"

fun records_selected :: "('c, 'o) Action \<Rightarrow> bool" where
  "records_selected (DeleteSelectedObject fired newId now) = True"
| "records_selected (DuplicateSelectedObject fired newId now) = True"
| "records_selected (BringToFront newId now) = True"
| "records_selected (SendToBack newId now) = True"
| "records_selected a = False"

subsection \<open>Sample data\<close>

text \<open>A canvas that is its own serialisation, with objects appended as text.\<close>

definition stubEnv :: "(string, string) Env" where
  "stubEnv =
     \<lparr> canvas_toJSON = (\<lambda>c. c),
       canvas_loadFromJSON = (\<lambda>s c. s),
       canvas_loadFromObject = (\<lambda>v c. c),
       canvas_setWidth = (\<lambda>v c. c),
       canvas_setHeight = (\<lambda>v c. c),
       canvas_setBackgroundColor = (\<lambda>v c. c),
       canvas_remove = (\<lambda>obj c. c),
       canvas_add = (\<lambda>obj c. c @ obj),
       canvas_setActiveObject = (\<lambda>obj c. c),
       canvas_bringToFront = (\<lambda>obj c. c),
       canvas_sendToBack = (\<lambda>obj c. c),
       canvas_centerObject = (\<lambda>obj c. c),
       canvas_toDataURL = (\<lambda>f c. c),
       canvas_toSVG = (\<lambda>c. c),
       object_clone = (\<lambda>obj. obj),
       object_offset = (\<lambda>obj. obj),
       image_fit = (\<lambda>s obj. obj),
       JSON_parse = (\<lambda>s. None),
       as_presets = (\<lambda>v. []) \<rparr>"

definition demoActs :: "(string, string) Action list" where
  "demoActs =
     [SetCanvas ''[]'', SaveToHistory ''Object added'' ''id1'' 1,
      SurfaceEdit ''[rect]'', SaveToHistory ''Object added'' ''id2'' 2]"

definition sampleRecords :: "(string \<times> string \<times> string \<times> nat) list" where
  "sampleRecords = map (\<lambda>n. (replicate n CHR ''x'', ''Object added'', ''id'', n)) [0 ..< 51]"

text \<open>
  A rectangle is added and then moved 49 times, each time recorded: 50 snapshots, the
  cap. Loading a snapshot of the one rectangle removes the rectangle that is on the
  canvas and adds the one of the snapshot, and the listeners hear both; \<open>reloadAt t\<close>
  is what such a load fires, from clock value \<open>t\<close> on.
\<close>

definition rectAt :: "nat \<Rightarrow> string" where
  "rectAt n = replicate n CHR ''.'' @ ''rect''"

definition moves :: "(string \<times> string \<times> string \<times> nat) list" where
  "moves =
     map (\<lambda>n. (rectAt n, if n = 0 then ''Object added'' else ''Object modified'', ''id'', n))
       [0 ..< 50]"

definition capActs :: "(string, string) Action list" where
  "capActs = SetCanvas [] # concat (map recordable moves)"

definition reloadAt :: "nat \<Rightarrow> (string \<times> string SurfaceEvent \<times> string \<times> nat) list" where
  "reloadAt t = [([], ObjectRemoved, ''id'', t), (rectAt 48, ObjectAdded, ''id'', Suc t)]"

text \<open>A canvas with a selected object, and the built-in registry after a first activation.\<close>

definition surface0 :: Surface where
  "surface0 = \<lparr> isDrawingMode = False, selection = True, defaultCursor = ''default'',
                 selectedObject = Some ''rect1'' \<rparr>"

definition selectActive :: "Surface ToolRegistry" where
  "selectActive = activateTool ''select'' 0 (builtinRegistry (\<lambda>n. surface0))"

definition textActive :: "Surface ToolRegistry" where
  "textActive = activateTool ''text'' 0 (builtinRegistry (\<lambda>n. surface0))"

text \<open>
  A catalog with the first built-in text preset, and a parser that knows four records.
\<close>

definition headlineBold :: PresetState where
  "headlineBold =
     \<lparr> id_p = ''p1'', name_p = ''Headline Bold'',
       settings = JObj [(''textSettings'',
                   JObj [(''fontFamily'', JStr ''Inter''), (''fontSize'', JNum 48),
                         (''fontWeight'', JStr ''bold''), (''fill'', JStr ''#1a1a1a''),
                         (''textAlign'', JStr ''center''), (''stroke'', JStr ''''),
                         (''strokeWidth'', JNum 0)])],
       thumbnail = None, createdAt = 0 \<rparr>"

definition sampleCatalog :: catalog where
  "sampleCatalog =
     registerCategory
       \<lparr> id_c = ''text'', name_c = ''Text Styles'',
         description_c = ''Pre-configured text styling presets'',
         presets_c = [headlineBold] \<rparr> []"

definition sampleParse :: "string \<Rightarrow> jsval option" where
  \<open>sampleParse data =
     (if data = ''{"category":"text"}''
      then Some (JObj [(''category'', JStr ''text'')])
      else if data = ''{"category":"nope","preset":null}''
      then Some (JObj [(''category'', JStr ''nope''), (''preset'', JNull)])
      else if data = ''{"category":"nope","preset":{"name":"Big"}}''
      then Some (JObj [(''category'', JStr ''nope''), (''preset'', JObj [(''name'', JStr ''Big'')])])
      else if data = ''{"category":"nope","preset":{"name":{"toString":null}}}''
      then Some (JObj [(''category'', JStr ''nope''),
                       (''preset'', JObj [(''name'', JObj [(''toString'', JNull)])])])
      else None)\<close>

definition sampleNum :: "real \<Rightarrow> string" where
  "sampleNum x = ''0''"

section \<open>The history timeline\<close>

lemma slice_zero: "0 \<le> e \<Longrightarrow> slice xs 0 e = take (nat e) xs"
  by (simp add: slice_def clamp_index_def Let_def min_def)

lemma slice_from_last: "slice_from xs (- 50) = drop (length xs - 50) xs"
  by (auto simp: slice_from_def clamp_index_def max_def intro!: arg_cong2[where f=drop])

lemma history_saveToHistory:
  "canvas st = Some c \<Longrightarrow> - 1 \<le> historyIndex st \<Longrightarrow>
   history (saveToHistory env act newId now st) =
     (let kept = take (nat (historyIndex st + 1)) (history st) @
                   [\<lparr>id_h = newId, action = act, timestamp = now,
                     canvasState = canvas_toJSON env c\<rparr>]
      in drop (length kept - 50) kept)"
  by (simp add: saveToHistory_def Let_def slice_zero slice_from_last)

lemma historyIndex_saveToHistory:
  "canvas st = Some c \<Longrightarrow>
   historyIndex (saveToHistory env act newId now st) =
     int (length (history (saveToHistory env act newId now st))) - 1"
  by (simp add: saveToHistory_def Let_def)



subsection \<open>The cursor invariant\<close>

lemma hist_ok_cong:
  "history a = history b \<Longrightarrow> historyIndex a = historyIndex b \<Longrightarrow> hist_ok a = hist_ok b"
  by (simp add: hist_ok_def)





















lemma exec_simps:
  "exec env st (SetCanvas c) = setCanvas c st"
  "exec env st (SaveToHistory act newId now) = saveToHistory env act newId now st"
  "exec env st (SurfaceEdit c') =
     (case canvas st of None \<Rightarrow> st | Some c \<Rightarrow> st\<lparr>canvas := Some c'\<rparr>)"
  "exec env st (Undo fired) = (case undo env fired st of Inl e \<Rightarrow> st | Inr st' \<Rightarrow> st')"
  "exec env st (Redo fired) = (case redo env fired st of Inl e \<Rightarrow> st | Inr st' \<Rightarrow> st')"
  by (simp_all add: exec_def)

lemma run_demoActs:
  "run stubEnv demoActs =
     initialState\<lparr> canvas := Some ''[rect]'',
       history := [\<lparr>id_h = ''id1'', action = ''Object added'', timestamp = 1,
                    canvasState = ''[]''\<rparr>,
                   \<lparr>id_h = ''id2'', action = ''Object added'', timestamp = 2,
                    canvasState = ''[rect]''\<rparr>],
       historyIndex := 1, isDirty := True\<rparr>"
  by (simp add: demoActs_def run_def run_from_def exec_simps setCanvas_def saveToHistory_def
      initialState_def stubEnv_def slice_def slice_from_def clamp_index_def Let_def)


lemma stubEnv_sel:
  "canvas_toJSON stubEnv = (\<lambda>c. c)"
  "canvas_loadFromJSON stubEnv = (\<lambda>s c. s)"
  by (simp_all add: stubEnv_def)

lemma run_snoc: "run env (acts @ [a]) = exec env (run env acts) a"
  by (simp add: run_def run_from_def)

lemma run_demoActs_undo:
  "run stubEnv (demoActs @ [Undo [(''[]'', ObjectRemoved, ''id3'', 3)]]) =
     initialState\<lparr> canvas := Some ''[]'',
       history := [\<lparr>id_h = ''id1'', action = ''Object added'', timestamp = 1,
                    canvasState = ''[]''\<rparr>,
                   \<lparr>id_h = ''id2'', action = ''Object added'', timestamp = 2,
                    canvasState = ''[rect]''\<rparr>,
                   \<lparr>id_h = ''id3'', action = ''Object removed'', timestamp = 3,
                    canvasState = ''[]''\<rparr>],
       historyIndex := 0, isDirty := True\<rparr>"
  by (simp add: run_snoc run_demoActs exec_simps undo_def index_def initialState_def
      stubEnv_sel fire_def saveToHistory_def slice_def slice_from_def clamp_index_def Let_def)

subsection \<open>The cap\<close>

lemma drop_cap_append:
  "drop (length (drop (length xs - 50) xs @ ys) - 50) (drop (length xs - 50) xs @ ys) =
   drop (length (xs @ ys) - 50) (xs @ ys)"
  by (cases "length xs \<le> 50") (auto simp: add.commute)

lemma run_from_append: "run_from env st (as @ bs) = run_from env (run_from env st as) bs"
  by (simp add: run_from_def)

lemma run_from_recordable:
  "canvas st \<noteq> None \<Longrightarrow> run_from env st (recordable (c, act, newId, now)) =
     saveToHistory env act newId now (st\<lparr>canvas := Some c\<rparr>)"
  by (auto simp: run_from_def recordable_def exec_simps)

lemma record_all_tail:
  "canvas st \<noteq> None \<Longrightarrow> historyIndex st = int (length (history st)) - 1 \<Longrightarrow>
   length (history st) \<le> 50 \<Longrightarrow>
   (let st' = run_from env st (concat (map recordable rs));
        all = history st @ map (snapshot env) rs
    in history st' = drop (length all - 50) all \<and>
       historyIndex st' = int (length (history st')) - 1 \<and>
       canvas st' \<noteq> None)"
proof (induction rs arbitrary: st)
  case Nil
  then show ?case by (simp add: run_from_def Let_def)
next
  case (Cons r rs)
  obtain c act newId now where r: "r = (c, act, newId, now)"
    by (cases r) auto
  define st1 where "st1 = saveToHistory env act newId now (st\<lparr>canvas := Some c\<rparr>)"
  have h1: "history st1 = drop (length (history st @ [snapshot env r]) - 50) (history st @ [snapshot env r])"
    using Cons.prems history_saveToHistory[of "st\<lparr>canvas := Some c\<rparr>" c env act newId now]
    by (simp add: st1_def Let_def snapshot_def r)
  have i1: "historyIndex st1 = int (length (history st1)) - 1"
    unfolding st1_def by (rule historyIndex_saveToHistory[of _ c]) simp
  have c1: "canvas st1 \<noteq> None"
    by (simp add: st1_def saveToHistory_def Let_def)
  have l1: "length (history st1) \<le> 50"
    by (simp add: h1)
  have step: "run_from env st (concat (map recordable (r # rs))) =
      run_from env st1 (concat (map recordable rs))"
    using Cons.prems(1) by (simp add: run_from_append run_from_recordable r st1_def)
  let ?st' = "run_from env st1 (concat (map recordable rs))"
  let ?ms = "map (snapshot env) rs"
  let ?all1 = "history st @ [snapshot env r]"
  from Cons.IH[OF c1 i1 l1]
  have IH: "history ?st' = drop (length (history st1 @ ?ms) - 50) (history st1 @ ?ms)"
    and idx: "historyIndex ?st' = int (length (history ?st')) - 1"
    and cv: "canvas ?st' \<noteq> None"
    unfolding Let_def by blast+
  have "history ?st' = drop (length (?all1 @ ?ms) - 50) (?all1 @ ?ms)"
    unfolding IH h1 by (rule drop_cap_append)
  then have "history ?st' =
      drop (length (history st @ map (snapshot env) (r # rs)) - 50)
        (history st @ map (snapshot env) (r # rs))"
    by simp
  with idx cv show ?case
    unfolding step Let_def by blast
qed

text \<open>
  C2. From an empty timeline and with a canvas bound, 51 recordable actions leave
  exactly 50 entries: all snapshots but the first one recorded, in the order they were
  recorded, with the cursor on the last of them (index 49).
\<close>

theorem cap_enforcement:
  assumes "canvas st \<noteq> None" and "history st = []" and "historyIndex st = - 1"
    and "length rs = 51"
  shows "history (run_from env st (concat (map recordable rs))) = tl (map (snapshot env) rs) \<and>
         length (history (run_from env st (concat (map recordable rs)))) = 50 \<and>
         historyIndex (run_from env st (concat (map recordable rs))) = 49"
  using record_all_tail[of st env rs] assms
  by (simp add: Let_def drop_Suc)

theorem cap_enforcement_witness:
  "canvas (setCanvas ''[]'' initialState :: (string, string) EditorState) \<noteq> None \<and>
   history (setCanvas ''[]'' initialState :: (string, string) EditorState) = [] \<and>
   historyIndex (setCanvas ''[]'' initialState :: (string, string) EditorState) = - 1 \<and>
   length sampleRecords = 51 \<and>
   length (history (run_from stubEnv (setCanvas ''[]'' initialState)
                      (concat (map recordable sampleRecords)))) = 50 \<and>
   timestamp (hd (history (run_from stubEnv (setCanvas ''[]'' initialState)
                      (concat (map recordable sampleRecords))))) = 1 \<and>
   historyIndex (run_from stubEnv (setCanvas ''[]'' initialState)
                      (concat (map recordable sampleRecords))) = 49"
proof -
  let ?st = "setCanvas ''[]'' initialState :: (string, string) EditorState"
  have pre: "canvas ?st \<noteq> None" "history ?st = []" "historyIndex ?st = - 1"
    "length sampleRecords = 51"
    by (simp_all add: setCanvas_def initialState_def sampleRecords_def)
  have "timestamp (hd (tl (map (snapshot stubEnv) sampleRecords))) = 1"
    by (simp add: sampleRecords_def snapshot_def upt_conv_Cons)
  with cap_enforcement [OF pre, of stubEnv] pre show ?thesis
    by simp
qed

subsection \<open>Pruning the redo branch\<close>

text \<open>
  C3. In a state whose cursor is a valid index strictly below the last one (as after
  one or more \<open>undo\<close>), \<open>saveToHistory\<close> with a bound canvas discards every snapshot
  beyond the cursor: the timeline becomes the entries up to the cursor (or, past the cap,
  a suffix of them) followed by the new snapshot, and \<open>canRedo\<close> is false.
\<close>

theorem redo_branch_pruned:
  assumes "canvas st = Some c" and "0 \<le> historyIndex st"
    and "historyIndex st < int (length (history st)) - 1"
  shows "\<not> canRedo (saveToHistory env act newId now st) \<and>
         last (history (saveToHistory env act newId now st)) = snapshot env (c, act, newId, now) \<and>
         suffix (butlast (history (saveToHistory env act newId now st)))
           (take (nat (historyIndex st) + 1) (history st)) \<and>
         (historyIndex st < 49 \<longrightarrow>
            history (saveToHistory env act newId now st) =
              take (nat (historyIndex st) + 1) (history st) @ [snapshot env (c, act, newId, now)])"
  using assms history_saveToHistory[of st c env act newId now]
  by (simp add: canRedo_def historyIndex_saveToHistory[of st c] Let_def snapshot_def
      nat_add_distrib suffix_drop)

theorem redo_branch_pruned_witness:
  "canvas (run stubEnv (demoActs @ [Undo [(''[]'', ObjectRemoved, ''id3'', 3)]])) = Some ''[]'' \<and>
   canRedo (run stubEnv (demoActs @ [Undo [(''[]'', ObjectRemoved, ''id3'', 3)]])) \<and>
   \<not> canRedo (saveToHistory stubEnv ''Object added'' ''id4'' 4
                (run stubEnv (demoActs @ [Undo [(''[]'', ObjectRemoved, ''id3'', 3)]]))) \<and>
   history (saveToHistory stubEnv ''Object added'' ''id4'' 4
              (run stubEnv (demoActs @ [Undo [(''[]'', ObjectRemoved, ''id3'', 3)]]))) =
     [\<lparr>id_h = ''id1'', action = ''Object added'', timestamp = 1, canvasState = ''[]''\<rparr>,
      \<lparr>id_h = ''id4'', action = ''Object added'', timestamp = 4, canvasState = ''[]''\<rparr>]"
proof -
  let ?st = "run stubEnv (demoActs @ [Undo [(''[]'', ObjectRemoved, ''id3'', 3)]])"
  have pre: "canvas ?st = Some ''[]''" "0 \<le> historyIndex ?st"
    "historyIndex ?st < int (length (history ?st)) - 1"
    by (simp_all add: run_demoActs_undo)
  have small: "historyIndex ?st < 49"
    by (simp add: run_demoActs_undo)
  note pruned = redo_branch_pruned [OF pre, of stubEnv "''Object added''" "''id4''" 4]
  let ?st' = "saveToHistory stubEnv ''Object added'' ''id4'' 4 ?st"
  from pruned have nr: "\<not> canRedo ?st'"
    by blast
  from pruned small
  have "history ?st' = take (nat (historyIndex ?st) + 1) (history ?st) @
          [snapshot stubEnv (''[]'', ''Object added'', ''id4'', 4)]"
    by blast
  then have h: "history ?st' =
     [\<lparr>id_h = ''id1'', action = ''Object added'', timestamp = 1, canvasState = ''[]''\<rparr>,
      \<lparr>id_h = ''id4'', action = ''Object added'', timestamp = 4, canvasState = ''[]''\<rparr>]"
    by (simp add: run_demoActs_undo snapshot_def stubEnv_sel)
  have cr: "canRedo ?st"
    using pre(3) by (simp add: canRedo_def)
  from pre(1) cr nr h show ?thesis
    by blast
qed

subsection \<open>Undo followed by redo\<close>

lemma canvas_saveToHistory: "canvas (saveToHistory env act newId now st) = canvas st"
  by (simp add: saveToHistory_def Let_def split: option.splits)

lemma canvas_recordables:
  "canvas st \<noteq> None \<Longrightarrow> rs \<noteq> [] \<Longrightarrow>
   canvas (run_from env st (concat (map recordable rs))) = Some (fst (last rs))"
proof (induction rs arbitrary: st)
  case Nil
  then show ?case by simp
next
  case (Cons r rs)
  obtain c act newId now where r: "r = (c, act, newId, now)"
    by (cases r) auto
  let ?st1 = "saveToHistory env act newId now (st\<lparr>canvas := Some c\<rparr>)"
  have step: "run_from env st (concat (map recordable (r # rs))) =
      run_from env ?st1 (concat (map recordable rs))"
    using Cons.prems(1) by (simp add: run_from_append run_from_recordable r)
  have c1: "canvas ?st1 = Some c"
    by (simp add: canvas_saveToHistory)
  show ?case
  proof (cases "rs = []")
    case True
    then show ?thesis
      unfolding step by (simp add: run_from_def c1 r)
  next
    case False
    with Cons.IH[of ?st1] c1 show ?thesis
      unfolding step by simp
  qed
qed

lemma run_capActs:
  "canvas (run stubEnv capActs) = Some (rectAt 49)"
  "historyIndex (run stubEnv capActs) = 49"
  "history (run stubEnv capActs) = map (snapshot stubEnv) moves"
proof -
  let ?st = "setCanvas [] initialState :: (string, string) EditorState"
  have r: "run stubEnv capActs = run_from stubEnv ?st (concat (map recordable moves))"
    by (simp add: capActs_def run_def run_from_def exec_simps)
  have pre: "canvas ?st \<noteq> None" "historyIndex ?st = int (length (history ?st)) - 1"
    "length (history ?st) \<le> 50"
    by (simp_all add: setCanvas_def initialState_def)
  have len: "length moves = 50"
    by (simp add: moves_def)
  from record_all_tail[OF pre, of stubEnv moves] len
  show "history (run stubEnv capActs) = map (snapshot stubEnv) moves"
    and "historyIndex (run stubEnv capActs) = 49"
    by (simp_all add: r Let_def setCanvas_def initialState_def)
  have "moves \<noteq> []" and "fst (last moves) = rectAt 49"
    by (simp_all add: moves_def last_map)
  with canvas_recordables[OF pre(1), of moves stubEnv]
  show "canvas (run stubEnv capActs) = Some (rectAt 49)"
    by (simp add: r)
qed

text \<open>
  At the cap the listeners' entries push the oldest ones out while \<open>undo\<close> loads, so the
  entry that \<open>redo\<close> then finds after the cursor is the one recorded for the snapshot
  just loaded.
\<close>

lemma reload_at_cap:
  assumes cv: "canvas st = Some c" and idx: "historyIndex st = 49"
    and len: "length (history st) = 50"
  shows "canvas (exec stubEnv (exec stubEnv st (Undo (reloadAt t))) (Redo (reloadAt t'))) =
           Some (rectAt 48) \<and>
         historyIndex (exec stubEnv (exec stubEnv st (Undo (reloadAt t))) (Redo (reloadAt t'))) = 49"
proof -
  let ?R = "\<lparr>id_h = ''id'', action = ''Object removed'', timestamp = t, canvasState = []\<rparr>"
  let ?A = "\<lparr>id_h = ''id'', action = ''Object added'', timestamp = Suc t,
             canvasState = rectAt 48\<rparr>"
  let ?s1 = "saveToHistory stubEnv ''Object removed'' ''id'' t (st\<lparr>canvas := Some []\<rparr>)"
  let ?s2 = "saveToHistory stubEnv ''Object added'' ''id'' (Suc t) (?s1\<lparr>canvas := Some (rectAt 48)\<rparr>)"
  have h1: "history ?s1 = drop 1 (history st @ [?R])"
    using history_saveToHistory[of "st\<lparr>canvas := Some []\<rparr>" "[]" stubEnv "''Object removed''" "''id''" t]
    by (simp add: idx len Let_def stubEnv_sel)
  have i1: "historyIndex ?s1 = 49"
    using historyIndex_saveToHistory[of "st\<lparr>canvas := Some []\<rparr>" "[]" stubEnv "''Object removed''" "''id''" t]
    by (simp add: h1 len)
  have l1: "length (history ?s1) = 50"
    by (simp add: h1 len)
  have h2: "history ?s2 = drop 1 (history ?s1 @ [?A])"
    using history_saveToHistory[of "?s1\<lparr>canvas := Some (rectAt 48)\<rparr>" "rectAt 48" stubEnv
        "''Object added''" "''id''" "Suc t"]
    by (simp add: i1 l1 Let_def stubEnv_sel)
  have l2: "length (history ?s2) = 50"
    by (simp add: h2 l1)
  have last2: "history ?s2 ! 49 = ?A"
    by (simp add: h2 l1 nth_append)
  have f: "fire stubEnv (reloadAt t) st = ?s2"
    by (simp add: fire_def reloadAt_def)
  define u where "u = (?s2)\<lparr> canvas := Some (canvasState (history st ! 48)),
                              historyIndex := 48, activeObject := None, isDirty := True \<rparr>"
  have undo: "exec stubEnv st (Undo (reloadAt t)) = u"
    by (simp add: exec_simps undo_def cv idx len index_def f u_def stubEnv_sel)
  have "redo stubEnv (reloadAt t') u =
          Inr ((fire stubEnv (reloadAt t') u)
                 \<lparr> canvas := Some (rectAt 48), historyIndex := 49,
                   activeObject := None, isDirty := True \<rparr>)"
    by (simp add: redo_def index_def u_def l2 last2 stubEnv_sel)
  then show ?thesis
    unfolding undo by (simp add: exec_simps)
qed

text \<open>
  C1 (the code departs from it). \<open>undo\<close> followed by \<open>redo\<close> should bring back the
  canvas and the cursor. With the timeline at the cap it does not: the rectangle has been
  moved 49 times, \<open>canUndo\<close> holds and the snapshot at the cursor is the canvas; after
  \<open>undo\<close> and \<open>redo\<close> the cursor is back at 49, but the canvas is the one of the
  snapshot before, with the rectangle at its previous place.
\<close>

theorem undo_redo_at_cap:
  "canUndo (run stubEnv capActs) \<and>
   historyIndex (run stubEnv capActs) = 49 \<and>
   canvas (run stubEnv capActs) = Some (rectAt 49) \<and>
   canvasState (history (run stubEnv capActs) ! 49) = rectAt 49 \<and>
   canvas (run stubEnv (capActs @ [Undo (reloadAt 50), Redo (reloadAt 52)])) = Some (rectAt 48) \<and>
   historyIndex (run stubEnv (capActs @ [Undo (reloadAt 50), Redo (reloadAt 52)])) = 49 \<and>
   rectAt 48 \<noteq> rectAt 49"
proof -
  have len: "length (history (run stubEnv capActs)) = 50"
    by (simp add: run_capActs moves_def)
  have r: "run stubEnv (capActs @ [Undo (reloadAt 50), Redo (reloadAt 52)]) =
        exec stubEnv (exec stubEnv (run stubEnv capActs) (Undo (reloadAt 50))) (Redo (reloadAt 52))"
    by (simp add: run_def run_from_def)
  have at: "canvasState (history (run stubEnv capActs) ! 49) = rectAt 49"
    by (simp add: run_capActs moves_def snapshot_def stubEnv_sel)
  have ne: "rectAt 48 \<noteq> rectAt 49"
    by (simp add: rectAt_def)
  from reload_at_cap[OF run_capActs(1,2) len, of 50 52] at ne
  show ?thesis
    by (simp add: r run_capActs canUndo_def)
qed


section \<open>The dirty flag\<close>

lemmas store_defs =
  setCanvas_def setActiveObject_def setSelectedTool_def
  setLoading_def setCurrentImage_def setIsDirty_def savePreset_def loadPreset_def
  deletePreset_def updateCanvasSettings_def updateTextSettings_def
  deleteSelectedObject_def duplicateSelectedObject_def bringToFront_def sendToBack_def
  importImage_def saveToLocalStorage_def loadFromLocalStorage_def clearLocalStorage_def
  saveToHistory_def undo_def redo_def

text \<open>
  The listeners never clear the flag, and when they touch the timeline they set it.
\<close>

lemma listener_dirty:
  "(isDirty s \<longrightarrow> isDirty (listener env ev newId now (s\<lparr>canvas := Some c\<rparr>))) \<and>
   (isDirty (listener env ev newId now (s\<lparr>canvas := Some c\<rparr>)) \<or>
    history (listener env ev newId now (s\<lparr>canvas := Some c\<rparr>)) = history s \<and>
    historyIndex (listener env ev newId now (s\<lparr>canvas := Some c\<rparr>)) = historyIndex s)"
  by (cases ev) (simp_all add: setActiveObject_def saveToHistory_def Let_def)

lemma fire_dirty:
  "(isDirty st \<longrightarrow> isDirty (fire env fired st)) \<and>
   (isDirty (fire env fired st) \<or>
    history (fire env fired st) = history st \<and>
    historyIndex (fire env fired st) = historyIndex st)"
proof (induction fired arbitrary: st)
  case Nil
  then show ?case by (simp add: fire_def)
next
  case (Cons e fired)
  obtain c ev newId now where e: "e = (c, ev, newId, now)"
    by (cases e) auto
  let ?s = "listener env ev newId now (st\<lparr>canvas := Some c\<rparr>)"
  have step: "fire env (e # fired) st = fire env fired ?s"
    by (simp add: fire_def e)
  from listener_dirty[of st env ev newId now c] Cons.IH[of ?s] show ?case
    unfolding step by auto
qed

lemma isDirty_fire: "isDirty st \<Longrightarrow> isDirty (fire env fired st)"
  by (simp add: fire_dirty)

lemma fire_clean:
  "\<not> isDirty (fire env fired st) \<Longrightarrow> history (fire env fired st) = history st"
  "\<not> isDirty (fire env fired st) \<Longrightarrow> historyIndex (fire env fired st) = historyIndex st"
  using fire_dirty[of st env fired] by auto

lemma dirty_only_cleared:
  "isDirty st \<Longrightarrow> \<not> isDirty (exec env st a) \<Longrightarrow> clears_dirty a"
  by (cases a)
    (auto simp: exec_def store_defs Let_def isDirty_fire
          split: option.splits if_splits sum.splits)

lemma dirty_cleared: "clears_dirty a \<Longrightarrow> \<not> isDirty (exec env st a)"
  by (cases a) (auto simp: exec_def store_defs)

lemma clean_timeline:
  "\<not> isDirty (exec env st a) \<Longrightarrow>
   history (exec env st a) = history st \<and> historyIndex (exec env st a) = historyIndex st"
  by (cases a)
    (auto simp: exec_def store_defs Let_def fire_clean
          split: option.splits if_splits sum.splits)

lemma dirty_timeline:
  "history (exec env st a) \<noteq> history st \<or> historyIndex (exec env st a) \<noteq> historyIndex st
   \<Longrightarrow> isDirty (exec env st a)"
  using clean_timeline[of env st a] by blast

lemma dirty_settings: "updates_settings a \<Longrightarrow> isDirty (exec env st a)"
  by (cases a) (auto simp: exec_def store_defs Let_def)

lemma dirty_records: "records a \<Longrightarrow> canvas st \<noteq> None \<Longrightarrow> isDirty (exec env st a)"
  by (cases a) (auto simp: exec_def store_defs Let_def)

lemma dirty_records_selected:
  "records_selected a \<Longrightarrow> canvas st \<noteq> None \<Longrightarrow> activeObject st \<noteq> None \<Longrightarrow>
   isDirty (exec env st a)"
  by (cases a) (auto simp: exec_def store_defs Let_def)

text \<open>
  C5 (as amended). The dirty flag goes from true to false only under a successful
  \<open>saveToLocalStorage\<close>, \<open>clearLocalStorage\<close> or \<open>setIsDirty(false)\<close>, and each of these
  clears it. An action that changes the timeline or its cursor leaves the flag true, and
  so do \<open>saveToHistory\<close> and \<open>importImage\<close> on a bound canvas, the delete, duplicate
  and reorder actions on a bound canvas with a selected object, and
  \<open>updateCanvasSettings\<close> and \<open>updateTextSettings\<close> always.
\<close>

theorem dirty_flag_effect:
  "(isDirty st \<and> \<not> isDirty (exec env st a) \<longrightarrow> clears_dirty a) \<and>
   (clears_dirty a \<longrightarrow> \<not> isDirty (exec env st a)) \<and>
   (history (exec env st a) \<noteq> history st \<or> historyIndex (exec env st a) \<noteq> historyIndex st
      \<longrightarrow> isDirty (exec env st a)) \<and>
   (records a \<and> canvas st \<noteq> None \<longrightarrow> isDirty (exec env st a)) \<and>
   (records_selected a \<and> canvas st \<noteq> None \<and> activeObject st \<noteq> None \<longrightarrow>
      isDirty (exec env st a)) \<and>
   (updates_settings a \<longrightarrow> isDirty (exec env st a))"
  using dirty_only_cleared [where st = st and env = env and a = a]
    dirty_cleared [where st = st and env = env and a = a]
    dirty_timeline [where st = st and env = env and a = a]
    dirty_settings [where st = st and env = env and a = a]
    dirty_records [where st = st and env = env and a = a]
    dirty_records_selected [where st = st and env = env and a = a]
  by blast

theorem dirty_flag_effect_witness:
  "isDirty (run stubEnv [UpdateTextSettings (JObj [])]) \<and>
   clears_dirty (ClearLocalStorage :: (string, string) Action) \<and>
   \<not> isDirty (exec stubEnv (run stubEnv [UpdateTextSettings (JObj [])]) ClearLocalStorage)"
proof -
  have u: "updates_settings (UpdateTextSettings (JObj []) :: (string, string) Action)"
    by simp
  have c: "clears_dirty (ClearLocalStorage :: (string, string) Action)"
    by simp
  have r: "run stubEnv [UpdateTextSettings (JObj [])] =
             exec stubEnv initialState (UpdateTextSettings (JObj []))"
    by (simp add: run_def run_from_def)
  from dirty_flag_effect [of initialState stubEnv "UpdateTextSettings (JObj [])"] u
  have "isDirty (run stubEnv [UpdateTextSettings (JObj [])])"
    unfolding r by blast
  moreover from dirty_flag_effect
      [of "run stubEnv [UpdateTextSettings (JObj [])]" stubEnv ClearLocalStorage] c
  have "\<not> isDirty (exec stubEnv (run stubEnv [UpdateTextSettings (JObj [])]) ClearLocalStorage)"
    by blast
  ultimately show ?thesis
    using c by blast
qed

text \<open>
  C5 as stated fails twice: \<open>clearLocalStorage\<close>, which saves nothing, clears the flag
  that \<open>updateTextSettings\<close> has set; and \<open>savePreset\<close> changes the presets of the
  store without setting the flag.
\<close>

theorem dirty_flag_counterexample:
  "isDirty (run stubEnv [UpdateTextSettings (JObj [])]) \<and>
   \<not> isDirty (run stubEnv [UpdateTextSettings (JObj []), ClearLocalStorage]) \<and>
   presets (run stubEnv [SavePreset ''Mine'' (JObj []) ''id1'' 1]) \<noteq>
     presets (initialState :: (string, string) EditorState) \<and>
   \<not> isDirty (run stubEnv [SavePreset ''Mine'' (JObj []) ''id1'' 1])"
  by (simp add: run_def run_from_def exec_def updateTextSettings_def clearLocalStorage_def
      savePreset_def initialState_def)

section \<open>Tool activation\<close>

lemma tools_builtin:
  "tools (builtinRegistry cs) =
     [(''select'', selectTool), (''text'', textTool), (''rectangle'', rectangleTool),
      (''circle'', circleTool), (''crop'', cropTool)]"
  by (simp add: builtinRegistry_def register_def emptyRegistry_def selectTool_def textTool_def
      rectangleTool_def circleTool_def cropTool_def)

lemma builtin_fields:
  "activeTool (builtinRegistry cs) = None"
  "activeCanvas (builtinRegistry cs) = None"
  "canvases (builtinRegistry cs) = cs"
  "calls (builtinRegistry cs) = []"
  by (simp_all add: builtinRegistry_def register_def emptyRegistry_def)

lemma selectActive_fields:
  "tools selectActive = tools (builtinRegistry (\<lambda>n. surface0))"
  "activeTool selectActive = Some ''select''"
  "activeCanvas selectActive = Some 0"
  "calls selectActive = [Activate ''select'' 0]"
  "canvases selectActive 0 = surface0"
  by (simp_all add: selectActive_def activateTool_def builtin_fields
      tools_builtin Let_def selectTool_def surface0_def)

lemma textActive_fields:
  "tools textActive = tools (builtinRegistry (\<lambda>n. surface0))"
  "activeTool textActive = Some ''text''"
  "activeCanvas textActive = Some 0"
  "calls textActive = [Activate ''text'' 0]"
  by (simp_all add: textActive_def activateTool_def builtin_fields
      tools_builtin Let_def textTool_def)

text \<open>
  C6 (as amended). When a tool \<open>A\<close> with a non-empty id is active, is still registered
  and has a handler with a \<open>deactivate\<close> hook, \<open>activateTool(B, surface)\<close> for a
  registered tool \<open>B\<close> with a handler invokes the \<open>deactivate\<close> hook of \<open>A\<close> once on the
  bound canvas and then the \<open>activate\<close> hook of \<open>B\<close> on the new one, in this order and
  nothing else; afterwards \<open>B\<close> and only \<open>B\<close> is the active tool.
\<close>

theorem tool_exclusivity:
  assumes "activeTool r = Some a" and "activeCanvas r = Some ac" and "a \<noteq> []"
    and "map_of (tools r) a = Some A" and "handler A = Some hA" and "deactivate hA = Some hook"
    and "map_of (tools r) b = Some B" and "handler B = Some hB"
  shows "calls (activateTool b cv r) = calls r @ [Deactivate a ac, Activate b cv] \<and>
         canvases (activateTool b cv r) =
           (let cs = (canvases r)(ac := hook (canvases r ac)) in cs(cv := activate hB (cs cv))) \<and>
         activeTool (activateTool b cv r) = Some b \<and>
         activeCanvas (activateTool b cv r) = Some cv \<and>
         (\<forall>t. isToolActive t (activateTool b cv r) \<longleftrightarrow> t = b)"
  using assms
  by (auto simp: activateTool_def Let_def isToolActive_def)

theorem tool_exclusivity_witness:
  "activeTool textActive = Some ''text'' \<and>
   calls (activateTool ''select'' 0 textActive) =
     [Activate ''text'' 0, Deactivate ''text'' 0, Activate ''select'' 0] \<and>
   activeTool (activateTool ''select'' 0 textActive) = Some ''select''"
proof -
  obtain hA hook where hA: "handler textTool = Some hA" "deactivate hA = Some hook"
    by (simp add: textTool_def)
  obtain hB where hB: "handler selectTool = Some hB"
    by (simp add: selectTool_def)
  have regA: "map_of (tools textActive) ''text'' = Some textTool"
    and regB: "map_of (tools textActive) ''select'' = Some selectTool"
    by (simp_all add: textActive_fields tools_builtin)
  have ne: "''text'' \<noteq> []"
    by simp
  from tool_exclusivity [OF textActive_fields(2,3) ne regA hA regB hB, of 0]
  show ?thesis
    by (simp add: textActive_fields)
qed

text \<open>
  C6 as stated fails when the active tool has been unregistered: \<open>text\<close> is still the
  active tool, and activating \<open>select\<close> calls no \<open>deactivate\<close> hook at all.
\<close>

theorem tool_exclusivity_counterexample:
  "isToolActive ''text'' (unregister ''text'' textActive) \<and>
   map_of (tools (unregister ''text'' textActive)) ''select'' = Some selectTool \<and>
   handler selectTool \<noteq> None \<and>
   calls (unregister ''text'' textActive) = [Activate ''text'' 0] \<and>
   calls (activateTool ''select'' 0 (unregister ''text'' textActive)) =
     [Activate ''text'' 0, Activate ''select'' 0]"
  by (simp add: activateTool_def unregister_def textActive_def
      builtin_fields tools_builtin Let_def isToolActive_def selectTool_def textTool_def)

text \<open>
  C7 (as amended). \<open>activateTool\<close> with an id that is not registered leaves the
  catalog, the active tool and the bound canvas of the registry as they were. It is not
  without effect: when the active tool (with a non-empty id) is registered with a
  \<open>deactivate\<close> hook, that hook is invoked once on the bound canvas.
\<close>

theorem activate_unknown:
  assumes unknown: "map_of (tools r) toolId = None"
  shows "tools (activateTool toolId cv r) = tools r \<and>
         activeTool (activateTool toolId cv r) = activeTool r \<and>
         activeCanvas (activateTool toolId cv r) = activeCanvas r \<and>
         (\<forall>a ac A h hook.
            activeTool r = Some a \<and> activeCanvas r = Some ac \<and> a \<noteq> [] \<and>
            map_of (tools r) a = Some A \<and> handler A = Some h \<and> deactivate h = Some hook \<longrightarrow>
            calls (activateTool toolId cv r) = calls r @ [Deactivate a ac] \<and>
            canvases (activateTool toolId cv r) = (canvases r)(ac := hook (canvases r ac)))"
  using unknown
  by (auto simp: activateTool_def Let_def split: option.splits)

theorem activate_unknown_witness:
  "map_of (tools selectActive) ''lasso'' = None \<and>
   activeTool (activateTool ''lasso'' 0 selectActive) = Some ''select'' \<and>
   activeCanvas (activateTool ''lasso'' 0 selectActive) = Some 0 \<and>
   calls (activateTool ''lasso'' 0 selectActive) = [Activate ''select'' 0, Deactivate ''select'' 0]"
proof -
  have unknown: "map_of (tools selectActive) ''lasso'' = None"
    by (simp add: selectActive_fields tools_builtin)
  obtain h hook where h: "handler selectTool = Some h" "deactivate h = Some hook"
    by (simp add: selectTool_def)
  have reg: "map_of (tools selectActive) ''select'' = Some selectTool"
    by (simp add: selectActive_fields tools_builtin)
  have ne: "''select'' \<noteq> []"
    by simp
  note unk = activate_unknown [OF unknown, of 0]
  from unk have "calls (activateTool ''lasso'' 0 selectActive) =
      calls selectActive @ [Deactivate ''select'' 0]"
    using selectActive_fields(2,3) ne reg h by blast
  moreover from unk have "activeTool (activateTool ''lasso'' 0 selectActive) = activeTool selectActive"
    "activeCanvas (activateTool ''lasso'' 0 selectActive) = activeCanvas selectActive"
    by blast+
  ultimately show ?thesis
    using unknown by (simp add: selectActive_fields)
qed

text \<open>
  C7 as stated fails: with \<open>select\<close> active, activating the unknown tool \<open>lasso\<close> runs
  the \<open>deactivate\<close> hook of \<open>select\<close>, which discards the selection of the canvas.
\<close>

theorem activate_unknown_counterexample:
  "activeTool selectActive = Some ''select'' \<and>
   map_of (tools selectActive) ''lasso'' = None \<and>
   selectedObject (canvases selectActive 0) = Some ''rect1'' \<and>
   selectedObject (canvases (activateTool ''lasso'' 0 selectActive) 0) = None \<and>
   calls (activateTool ''lasso'' 0 selectActive) = calls selectActive @ [Deactivate ''select'' 0]"
  by (simp add: activateTool_def selectActive_fields tools_builtin
      Let_def selectTool_def surface0_def)

section \<open>Presets\<close>

subsection \<open>Spreading twice\<close>

lemma update_absent: "k \<notin> fst ` set al \<Longrightarrow> AList.update k v al = al @ [(k, v)]"
  by (induction al) auto

lemma set_props_distinct_append:
  "distinct (map fst (acc @ ps)) \<Longrightarrow> set_props ps acc = acc @ ps"
proof (induction ps arbitrary: acc)
  case Nil
  then show ?case by (simp add: set_props_def)
next
  case (Cons p ps)
  obtain k v where p: "p = (k, v)" by (cases p)
  from Cons.prems have "k \<notin> fst ` set acc" by (auto simp: p)
  then have "AList.update k v acc = acc @ [(k, v)]" by (rule update_absent)
  moreover have "set_props ps (acc @ [(k, v)]) = (acc @ [(k, v)]) @ ps"
    using Cons.prems by (intro Cons.IH) (simp add: p)
  ultimately show ?case by (simp add: set_props_def p)
qed

lemma set_props_empty: "distinct (map fst ps) \<Longrightarrow> set_props ps [] = ps"
  using set_props_distinct_append[of "[]" ps] by simp

lemma distinct_set_props: "distinct (map fst obj) \<Longrightarrow> distinct (map fst (set_props ps obj))"
  unfolding set_props_def
  by (induction ps arbitrary: obj) (auto simp: distinct_update)

lemma map_of_set_props: "map_of (set_props ps obj) = map_of obj ++ map_of (rev ps)"
  unfolding set_props_def
  by (induction ps arbitrary: obj) (auto simp: update_conv' map_add_def fun_eq_iff split: option.splits)

lemma keys_set_props_known:
  "fst ` set ps \<subseteq> fst ` set obj \<Longrightarrow> map fst (set_props ps obj) = map fst obj"
proof (induction ps arbitrary: obj)
  case Nil
  then show ?case by (simp add: set_props_def)
next
  case (Cons p ps)
  obtain k v where p: "p = (k, v)" by (cases p)
  from Cons.prems have "k \<in> set (map fst obj)" by (simp add: p)
  then have keys: "map fst (AList.update k v obj) = map fst obj"
    by (simp add: update_keys)
  then have "fst ` set (AList.update k v obj) = fst ` set obj"
    by (metis set_map)
  with Cons.prems have "map fst (set_props ps (AList.update k v obj)) =
      map fst (AList.update k v obj)"
    by (intro Cons.IH) simp
  with keys show ?case by (simp add: set_props_def p)
qed

lemma keys_set_props_sub: "fst ` set ps \<subseteq> fst ` set (set_props ps obj)"
  by (metis dom_map_of_conv_image_fst map_of_set_props dom_map_add set_rev sup_ge1)

lemma alist_eqI:
  "map fst xs = map fst ys \<Longrightarrow> distinct (map fst xs) \<Longrightarrow> map_of xs = map_of ys \<Longrightarrow> xs = ys"
proof (induction xs arbitrary: ys)
  case Nil
  then show ?case by simp
next
  case (Cons x xs)
  then obtain y ys' where ys: "ys = y # ys'" by (cases ys) auto
  obtain k v where x: "x = (k, v)" by (cases x)
  from Cons.prems(1) obtain w where y: "y = (k, w)" by (cases y) (auto simp: ys x)
  from Cons.prems(3) have "map_of (x # xs) k = map_of ys k" by (rule fun_cong)
  then have vw: "v = w" by (simp add: x y ys)
  from Cons.prems(1) have tl_keys: "map fst xs = map fst ys'"
    by (simp add: ys)
  from Cons.prems(2) have "k \<notin> set (map fst xs)"
    by (simp add: x)
  with tl_keys have notin: "k \<notin> fst ` set xs" "k \<notin> fst ` set ys'"
    by (simp_all only: set_map [symmetric] not_False_eq_True)
  have "map_of xs = map_of ys'"
  proof
    fix z
    show "map_of xs z = map_of ys' z"
    proof (cases "z = k")
      case True
      from notin have "map_of xs k = None" "map_of ys' k = None"
        by (simp_all add: map_of_eq_None_iff)
      with True show ?thesis
        by simp
    next
      case False
      with Cons.prems(3) show ?thesis
        by (auto simp: x y ys fun_eq_iff split: if_splits)
    qed
  qed
  with Cons.IH[of ys'] tl_keys Cons.prems(2) have "xs = ys'"
    by simp
  with vw show ?case by (simp add: x y ys)
qed

lemma set_props_idem:
  assumes "distinct (map fst obj)"
  shows "set_props ps (set_props ps obj) = set_props ps obj"
proof (rule alist_eqI)
  show "map fst (set_props ps (set_props ps obj)) = map fst (set_props ps obj)"
    by (rule keys_set_props_known) (rule keys_set_props_sub)
  show "distinct (map fst (set_props ps (set_props ps obj)))"
    by (intro distinct_set_props assms)
  show "map_of (set_props ps (set_props ps obj)) = map_of (set_props ps obj)"
    by (simp add: map_of_set_props map_add_def fun_eq_iff split: option.splits)
qed

lemma spread_idem: "spread (JObj (spread a b)) b = spread a b"
proof -
  have d: "distinct (map fst (set_props (own_props a) []))"
    by (rule distinct_set_props) simp
  then have "distinct (map fst (spread a b))"
    unfolding spread_def by (rule distinct_set_props)
  then have "set_props (spread a b) [] = spread a b"
    by (rule set_props_empty)
  then show ?thesis
    using set_props_idem[OF d, of "own_props b"] by (simp add: spread_def)
qed

lemma applyPreset_text_only:
  assumes "getPreset cat categoryId presetId = Some preset"
    and "settings preset = JObj [(''textSettings'', ts)]"
  shows "applyPreset env cat categoryId presetId st =
           (Inr (Some preset), if truthy ts then updateTextSettings ts st else st)"
  using assms by (simp add: applyPreset_def lookup_def prop_of_def Let_def)

lemma updateTextSettings_idem:
  "updateTextSettings ts (updateTextSettings ts st) = updateTextSettings ts st"
  by (simp add: updateTextSettings_def spread_idem)

lemma getPreset_sample: "getPreset sampleCatalog ''text'' ''p1'' = Some headlineBold"
  by (simp add: getPreset_def sampleCatalog_def registerCategory_def headlineBold_def)

text \<open>
  C8. For a preset whose settings hold only \<open>textSettings\<close>, \<open>applyPreset\<close> leaves
  \<open>canvasSettings\<close> as they were, and applying it a second time gives the same
  \<open>textSettings\<close> and \<open>canvasSettings\<close> (indeed the same store and result) as applying
  it once.
\<close>

theorem preset_text_only_idempotent:
  assumes "getPreset cat categoryId presetId = Some preset"
    and "settings preset = JObj [(''textSettings'', ts)]"
  shows "canvasSettings (snd (applyPreset env cat categoryId presetId st)) = canvasSettings st \<and>
         textSettings (snd (applyPreset env cat categoryId presetId
                              (snd (applyPreset env cat categoryId presetId st)))) =
           textSettings (snd (applyPreset env cat categoryId presetId st)) \<and>
         canvasSettings (snd (applyPreset env cat categoryId presetId
                              (snd (applyPreset env cat categoryId presetId st)))) =
           canvasSettings (snd (applyPreset env cat categoryId presetId st)) \<and>
         applyPreset env cat categoryId presetId
           (snd (applyPreset env cat categoryId presetId st)) =
           applyPreset env cat categoryId presetId st"
  by (simp add: applyPreset_text_only [OF assms] updateTextSettings_idem)
    (simp add: updateTextSettings_def)

theorem preset_text_only_idempotent_witness:
  "getPreset sampleCatalog ''text'' ''p1'' = Some headlineBold \<and>
   canvasSettings (snd (applyPreset stubEnv sampleCatalog ''text'' ''p1'' initialState)) =
     defaultCanvasSettings \<and>
   applyPreset stubEnv sampleCatalog ''text'' ''p1''
     (snd (applyPreset stubEnv sampleCatalog ''text'' ''p1'' initialState)) =
   applyPreset stubEnv sampleCatalog ''text'' ''p1'' initialState"
proof -
  have s: "settings headlineBold = JObj [(''textSettings'',
                   JObj [(''fontFamily'', JStr ''Inter''), (''fontSize'', JNum 48),
                         (''fontWeight'', JStr ''bold''), (''fill'', JStr ''#1a1a1a''),
                         (''textAlign'', JStr ''center''), (''stroke'', JStr ''''),
                         (''strokeWidth'', JNum 0)])]"
    by (simp add: headlineBold_def)
  have c: "canvasSettings (initialState :: (string, string) EditorState) = defaultCanvasSettings"
    by (simp add: initialState_def)
  from preset_text_only_idempotent [OF getPreset_sample s, of stubEnv initialState] c
  show ?thesis
    by (simp add: getPreset_sample)
qed

subsection \<open>Import\<close>

lemma importPreset_result:
  "importPreset parse conv newId now data cat =
     (case parse data of
        None \<Rightarrow> (False, cat)
      | Some parsed \<Rightarrow>
          if truthy (prop_of parsed ''category'') \<and> truthy (prop_of parsed ''preset'')
          then (case conv (prop_of (prop_of parsed ''preset'') ''name'') of
                  Inl e \<Rightarrow> (False, cat)
                | Inr name \<Rightarrow>
                    (True,
                     (case prop_of parsed ''category'' of
                        JStr categoryId \<Rightarrow>
                          addPreset categoryId (name @ '' (Imported)'')
                            (prop_of (prop_of parsed ''preset'') ''settings'') None newId now cat
                      | _ \<Rightarrow> cat)))
          else (False, cat))"
proof (cases "parse data")
  case None
  then show ?thesis by (simp add: importPreset_def)
next
  case (Some parsed)
  then show ?thesis
    by (cases parsed)
      (simp_all add: importPreset_def prop_of_def split: jsval.splits sum.splits)
qed

lemma truthy_prop_has_field: "truthy (prop_of v k) \<Longrightarrow> has_field v k"
proof (cases v)
  case (JObj kvs)
  assume "truthy (prop_of v k)"
  with JObj have "map_of kvs k \<noteq> None"
    by (auto simp: prop_of_def lookup_def split: option.splits)
  then have "k \<in> fst ` set kvs"
    by (simp add: map_of_eq_None_iff)
  with JObj show ?thesis
    by (simp add: has_field_def)
qed (simp_all add: prop_of_def)

text \<open>
  C9. \<open>importPreset\<close> returns false and leaves the catalog as it was when the input
  does not parse, when the parsed record has no \<open>category\<close> field and when it has no
  \<open>preset\<close> field; whenever it returns false the catalog is unchanged; and it inserts
  only for a record that has both fields.
\<close>

theorem import_fails_closed:
  "(parse data = None \<longrightarrow> importPreset parse conv newId now data cat = (False, cat)) \<and>
   (\<forall>v. parse data = Some v \<and> (\<not> has_field v ''category'' \<or> \<not> has_field v ''preset'') \<longrightarrow>
        importPreset parse conv newId now data cat = (False, cat)) \<and>
   (\<not> fst (importPreset parse conv newId now data cat) \<longrightarrow>
        snd (importPreset parse conv newId now data cat) = cat) \<and>
   (snd (importPreset parse conv newId now data cat) \<noteq> cat \<longrightarrow>
        (\<exists>v. parse data = Some v \<and> has_field v ''category'' \<and> has_field v ''preset''))"
  by (auto simp: importPreset_result split: option.splits if_splits sum.splits
           dest: truthy_prop_has_field)

theorem import_fails_closed_witness:
  \<open>sampleParse ''{"category":"text"}'' = Some (JObj [(''category'', JStr ''text'')]) \<and>
   \<not> has_field (JObj [(''category'', JStr ''text'')]) ''preset'' \<and>
   importPreset sampleParse (toString sampleNum) ''p2'' 7 ''{"category":"text"}'' sampleCatalog =
     (False, sampleCatalog)\<close>
proof -
  have p: \<open>sampleParse ''{"category":"text"}'' = Some (JObj [(''category'', JStr ''text'')])\<close>
    by (simp add: sampleParse_def)
  have m: "\<not> has_field (JObj [(''category'', JStr ''text'')]) ''preset''"
    by (simp add: has_field_def)
  from import_fails_closed [of sampleParse _ "toString sampleNum" "''p2''" 7 sampleCatalog] p m
  show ?thesis
    by blast
qed

text \<open>
  C10 (as amended). For a record whose \<open>category\<close> and \<open>preset\<close> fields both hold a
  truthy value, whose preset name converts to a string, and whose category names no
  category of the catalog, \<open>importPreset\<close> returns true and leaves the catalog as it was.
\<close>

theorem import_unknown_category:
  assumes "parse data = Some v"
    and "truthy (prop_of v ''category'')" and "truthy (prop_of v ''preset'')"
    and "conv (prop_of (prop_of v ''preset'') ''name'') = Inr name"
    and "\<forall>categoryId. prop_of v ''category'' = JStr categoryId \<longrightarrow> map_of cat categoryId = None"
  shows "importPreset parse conv newId now data cat = (True, cat)"
  using assms
  by (auto simp: importPreset_result addPreset_def split: jsval.splits)

theorem import_unknown_category_witness:
  \<open>sampleParse ''{"category":"nope","preset":{"name":"Big"}}'' =
     Some (JObj [(''category'', JStr ''nope''), (''preset'', JObj [(''name'', JStr ''Big'')])]) \<and>
   map_of sampleCatalog ''nope'' = None \<and>
   importPreset sampleParse (toString sampleNum) ''p2'' 7 ''{"category":"nope","preset":{"name":"Big"}}''
     sampleCatalog = (True, sampleCatalog)\<close>
proof -
  let ?v = "JObj [(''category'', JStr ''nope''), (''preset'', JObj [(''name'', JStr ''Big'')])]"
  have p: \<open>sampleParse ''{"category":"nope","preset":{"name":"Big"}}'' = Some ?v\<close>
    by (simp add: sampleParse_def)
  have t: "truthy (prop_of ?v ''category'')" "truthy (prop_of ?v ''preset'')"
    by (simp_all add: prop_of_def lookup_def)
  have s: "toString sampleNum (prop_of (prop_of ?v ''preset'') ''name'') = Inr ''Big''"
    by (simp add: prop_of_def lookup_def)
  have n: "map_of sampleCatalog ''nope'' = None"
    by (simp add: sampleCatalog_def registerCategory_def)
  then have u: "\<forall>categoryId. prop_of ?v ''category'' = JStr categoryId \<longrightarrow>
                  map_of sampleCatalog categoryId = None"
    by (simp add: prop_of_def lookup_def)
  from import_unknown_category
         [where parse = sampleParse and cat = sampleCatalog and conv = "toString sampleNum"
            and newId = "''p2''" and now = 7, OF p t s u] p n
  show ?thesis
    by blast
qed

text \<open>
  C10 as stated fails for a field that is present but falsy: the record
  \<open>{"category":"nope","preset":null}\<close> has both fields and names no category, and the
  import returns false.
\<close>

theorem import_unknown_category_counterexample:
  \<open>sampleParse ''{"category":"nope","preset":null}'' =
     Some (JObj [(''category'', JStr ''nope''), (''preset'', JNull)]) \<and>
   has_field (JObj [(''category'', JStr ''nope''), (''preset'', JNull)]) ''category'' \<and>
   has_field (JObj [(''category'', JStr ''nope''), (''preset'', JNull)]) ''preset'' \<and>
   map_of sampleCatalog ''nope'' = None \<and>
   importPreset sampleParse (toString sampleNum) ''p2'' 7 ''{"category":"nope","preset":null}'' sampleCatalog =
     (False, sampleCatalog)\<close>
  by (simp add: sampleParse_def has_field_def sampleCatalog_def registerCategory_def
      importPreset_def lookup_def)

text \<open>
  The import also returns false for truthy fields when the name does not convert: the
  name \<open>{"toString":null}\<close> makes the concatenation throw inside the \<open>try\<close> block.
\<close>

lemma import_name_throws:
  \<open>importPreset sampleParse (toString sampleNum) ''p2'' 7
     ''{"category":"nope","preset":{"name":{"toString":null}}}'' sampleCatalog =
     (False, sampleCatalog)\<close>
  by (simp add: sampleParse_def importPreset_def lookup_def prop_of_def)

end
